theory Spec2Isabelle
  imports Main "HOL-Library.Word"
begin

section \<open>PyXLL automation examples (examples/automation.py)\<close>

text \<open>
  The module is a handful of callbacks that Excel invokes through PyXLL and that call back
  into Excel through COM. Everything a callback does is a call out of the module: into
  PyXLL, into win32com, into a COM object, into the import system or the logger. The model
  keeps the code of the module and leaves the other side of every such call open: a
  callback is a tree of requests, each with the continuation that receives the answer, and
  an environment (any function from its own state and a request to an answer and a new
  state) plays Excel and the Python runtime.
\<close>

subsection \<open>Values, exceptions, requests\<close>

text \<open>The functions the module defines at its top level.\<close>

datatype fn = Xl_app | Win32com_menu_test | Button_example | Checkbox_example
  | Scrollbar_example | Automation_example

text \<open>The exceptions that occur: the four Python raises itself, and COM errors.\<close>

datatype exn = ImportError string | NameError string | AttributeError string | TypeError
  | Com_error int

text \<open>
  Python values as the module sees them. \<open>'o\<close> is the type of references to objects of
  the other side (COM objects, the XLCell of PyXLL). A float is its IEEE 754 binary64
  pattern; Excel hands numbers over as floats.
\<close>

datatype 'o pyval = PNone | PBool bool | PInt int | PFloat "64 word" | PStr string
  | PTuple "'o pyval list" | PObj 'o

text \<open>
  The one nested function, \<^verbatim>\<open>update_func\<close>, with the variables of
  \<^verbatim>\<open>automation_example\<close> it refers to: \<^verbatim>\<open>address\<close>, \<^verbatim>\<open>rows\<close>,
  \<^verbatim>\<open>cols\<close>, \<^verbatim>\<open>value\<close>. The signature \<^verbatim>\<open>"int rows, int cols, var value"\<close>
  makes \<^verbatim>\<open>rows\<close> and \<^verbatim>\<open>cols\<close> integers.
\<close>

datatype 'o closure = Update_func "'o pyval" int int "'o pyval"

datatype 'o request =
    Import string  \<comment> \<open>\<^verbatim>\<open>import m\<close>\<close>
  | Import_from string "string list"  \<comment> \<open>\<^verbatim>\<open>from m import a, b\<close>\<close>
  | Log_warning string  \<comment> \<open>\<^verbatim>\<open>_log.warning(s)\<close>\<close>
  | Xl_menu string string fn  \<comment> \<open>\<^verbatim>\<open>@xl_menu(name, sub_menu=s)\<close> on a function\<close>
  | Xl_macro fn  \<comment> \<open>\<^verbatim>\<open>@xl_macro()\<close> on a function\<close>
  | Xl_func string bool fn  \<comment> \<open>\<^verbatim>\<open>@xl_func(signature, macro=b)\<close> on a function\<close>
  | Get_active_object  \<comment> \<open>\<^verbatim>\<open>pyxll.get_active_object()\<close>\<close>
  | Dispatch "'o pyval"  \<comment> \<open>\<^verbatim>\<open>win32com.client.Dispatch(x)\<close>\<close>
  | EnsureDispatch "'o pyval"  \<comment> \<open>\<^verbatim>\<open>win32com.client.gencache.EnsureDispatch(x)\<close>\<close>
  | GetAttr "'o pyval" string  \<comment> \<open>\<^verbatim>\<open>x.name\<close>\<close>
  | SetAttr "'o pyval" string "'o pyval"  \<comment> \<open>\<^verbatim>\<open>x.name = v\<close>\<close>
  | Call "'o pyval" string "'o pyval list"  \<comment> \<open>\<^verbatim>\<open>x.name(args)\<close>\<close>
  | XlcAlert "'o pyval"  \<comment> \<open>\<^verbatim>\<open>pyxll.xlcAlert(s)\<close>\<close>
  | XlfCaller  \<comment> \<open>\<^verbatim>\<open>pyxll.xlfCaller()\<close>\<close>
  | Async_call "'o closure"  \<comment> \<open>\<^verbatim>\<open>pyxll.async_call(f)\<close>\<close>

text \<open>
  An attribute is read, assigned or called on an object. None, numbers, strings and
  tuples have none of the attributes the module asks for: on them Python raises
  AttributeError itself, and the other side is not asked.
\<close>

fun is_object :: "'o pyval \<Rightarrow> bool" where
  "is_object (PObj x) = True"
| "is_object _ = False"

definition refused :: "'o request \<Rightarrow> exn option" where
  "refused r =
     (case r of
        GetAttr x n \<Rightarrow> if is_object x then None else Some (AttributeError n)
      | SetAttr x n v \<Rightarrow> if is_object x then None else Some (AttributeError n)
      | Call x n args \<Rightarrow> if is_object x then None else Some (AttributeError n)
      | _ \<Rightarrow> None)"

text \<open>What a module-level name can be bound to.\<close>

datatype 'o binding = Module string | Imported string string | Logger | Function fn
  | Value "'o pyval"

subsection \<open>Programs and their runs\<close>

text \<open>
  \<open>Do r k\<close> makes the request \<open>r\<close> and goes on with \<open>k\<close> at the answer; \<open>Load\<close> reads
  a module-level name and \<open>Store\<close> binds one; \<open>Try body matches handler rest\<close> is
  \<^verbatim>\<open>try: body except E: handler\<close> followed by \<open>rest\<close>, with \<open>matches\<close> the test for
  \<^verbatim>\<open>E\<close>.
\<close>

datatype 'o prog =
    Return "'o pyval"
  | Raise exn
  | Do "'o request" "'o pyval \<Rightarrow> 'o prog"
  | Load string "'o binding \<Rightarrow> 'o prog"
  | Store string "'o binding" "'o prog"
  | Try "'o prog" "exn \<Rightarrow> bool" "'o prog" "'o prog"

type_synonym 'o answer = "exn + 'o pyval"
type_synonym ('h, 'o) env = "'h \<Rightarrow> 'o request \<Rightarrow> 'o answer \<times> 'h"
type_synonym 'o globals = "(string \<times> 'o binding) list"
type_synonym 'o trace = "('o request \<times> 'o answer) list"

text \<open>
  A run ends with a value or an exception, in some state of the environment, with the
  module-level names as they then are, and has made the requests of its trace, each with
  the answer it got.
\<close>

record ('h, 'o) outcome =
  result :: "'o answer"
  host :: 'h
  globals :: "'o globals"
  trace :: "'o trace"

definition after :: "'o trace \<Rightarrow> ('h, 'o) outcome \<Rightarrow> ('h, 'o) outcome" where
  "after tr out = out\<lparr>trace := tr @ trace out\<rparr>"

text \<open>
  An exception ends the run, unless it is raised in the body of a \<open>Try\<close> whose test it
  passes. A request that Python refuses is not put to the environment; it stands in the
  trace with the exception as its answer. Reading a name that is not bound raises
  NameError. The module-level names are
  kept newest first, and a name reads as its newest binding.
\<close>

primrec run :: "('h, 'o) env \<Rightarrow> 'o prog \<Rightarrow> 'h \<Rightarrow> 'o globals \<Rightarrow> ('h, 'o) outcome" where
  "run env (Return v) s g = \<lparr>result = Inr v, host = s, globals = g, trace = []\<rparr>"
| "run env (Raise e) s g = \<lparr>result = Inl e, host = s, globals = g, trace = []\<rparr>"
| "run env (Do r k) s g =
     (case refused r of
        Some e \<Rightarrow> \<lparr>result = Inl e, host = s, globals = g, trace = [(r, Inl e)]\<rparr>
      | None \<Rightarrow>
          (case env s r of
             (Inl e, s') \<Rightarrow> \<lparr>result = Inl e, host = s', globals = g, trace = [(r, Inl e)]\<rparr>
           | (Inr v, s') \<Rightarrow> after [(r, Inr v)] (run env (k v) s' g)))"
| "run env (Load n k) s g =
     (case map_of g n of
        None \<Rightarrow> \<lparr>result = Inl (NameError n), host = s, globals = g, trace = []\<rparr>
      | Some b \<Rightarrow> run env (k b) s g)"
| "run env (Store n b p) s g = run env p s ((n, b) # g)"
| "run env (Try body matches handler rest) s g =
     (let o1 = run env body s g in
      case result o1 of
        Inr _ \<Rightarrow> after (trace o1) (run env rest (host o1) (globals o1))
      | Inl e \<Rightarrow>
          if matches e then
            (let o2 = after (trace o1) (run env handler (host o1) (globals o1)) in
             case result o2 of
               Inl _ \<Rightarrow> o2
             | Inr _ \<Rightarrow> after (trace o2) (run env rest (host o2) (globals o2)))
          else o1)"

text \<open>Calling a function of the module and going on with what it returns.\<close>

primrec bnd :: "'o prog \<Rightarrow> ('o pyval \<Rightarrow> 'o prog) \<Rightarrow> 'o prog" where
  "bnd (Return v) f = f v"
| "bnd (Raise e) f = Raise e"
| "bnd (Do r k) f = Do r (\<lambda>v. bnd (k v) f)"
| "bnd (Load n k) f = Load n (\<lambda>b. bnd (k b) f)"
| "bnd (Store n b p) f = Store n b (bnd p f)"
| "bnd (Try body matches handler rest) f = Try body matches handler (bnd rest f)"

text \<open>
  \<^verbatim>\<open>x.name(args)\<close> looks \<^verbatim>\<open>name\<close> up on \<^verbatim>\<open>x\<close> before it evaluates the arguments;
  on an object of win32com the lookup itself asks nothing of Excel.
\<close>

definition lookup :: "'o pyval \<Rightarrow> string \<Rightarrow> 'o prog \<Rightarrow> 'o prog" where
  "lookup x n p = (if is_object x then p else Raise (AttributeError n))"

subsection \<open>The two Python operators the callbacks apply to a value of Excel\<close>

definition float_one :: "64 word" where
  "float_one = 0x3FF0000000000000"

text \<open>
  \<^verbatim>\<open>v + 1\<close>. \<open>fadd\<close> is the addition of floats, which is not modelled and is a
  parameter. A bool counts as 0 or 1; None, a string, a tuple and an object have no sum
  with an int.
\<close>

fun add_one :: "(64 word \<Rightarrow> 64 word \<Rightarrow> 64 word) \<Rightarrow> 'o pyval \<Rightarrow> exn + 'o pyval" where
  "add_one fadd (PInt n) = Inr (PInt (n + 1))"
| "add_one fadd (PBool b) = Inr (PInt (of_bool b + 1))"
| "add_one fadd (PFloat x) = Inr (PFloat (fadd x float_one))"
| "add_one fadd PNone = Inl TypeError"
| "add_one fadd (PStr s) = Inl TypeError"
| "add_one fadd (PTuple vs) = Inl TypeError"
| "add_one fadd (PObj x) = Inl TypeError"

text \<open>\<^verbatim>\<open>v == 1\<close>: true of the int 1, of the float 1.0 and of True.\<close>

fun eq_one :: "'o pyval \<Rightarrow> bool" where
  "eq_one (PInt n) = (n = 1)"
| "eq_one (PBool b) = b"
| "eq_one (PFloat x) = (x = float_one)"
| "eq_one PNone = False"
| "eq_one (PStr s) = False"
| "eq_one (PTuple vs) = False"
| "eq_one (PObj x) = False"

subsection \<open>The functions of the module\<close>

text \<open>
  \<^verbatim>\<open>
  def xl_app():
      xl_window = pyxll.get_active_object()
      xl_app = win32com.client.Dispatch(xl_window).Application
      win32com.client.gencache.EnsureDispatch(xl_app)
      return xl_app
  \<close>
  \<^verbatim>\<open>win32com\<close> is the one name the module binds under a condition, so the one whose
  reads are modelled.
\<close>

definition xl_app :: "'o prog" where
  "xl_app =
     Do Get_active_object (\<lambda>xl_window.
     Load ''win32com'' (\<lambda>_.
     Do (Dispatch xl_window) (\<lambda>d.
     Do (GetAttr d ''Application'') (\<lambda>app.
     Load ''win32com'' (\<lambda>_.
     Do (EnsureDispatch app) (\<lambda>_.
     Return app))))))"

text \<open>
  \<^verbatim>\<open>
  def win32com_menu_test():
      selection = xl_app().Selection
      selection.Value = "Hello!"
      pyxll.xlcAlert("Some text has been written to the current cell")
  \<close>
\<close>

definition win32com_menu_test :: "'o prog" where
  "win32com_menu_test =
     bnd xl_app (\<lambda>xl.
     Do (GetAttr xl ''Selection'') (\<lambda>selection.
     Do (SetAttr selection ''Value'' (PStr ''Hello!'')) (\<lambda>_.
     Do (XlcAlert (PStr ''Some text has been written to the current cell'')) (\<lambda>_.
     Return PNone))))"

text \<open>
  \<^verbatim>\<open>
  def button_example():
      xl = xl_app()
      range = xl.Range("button_output")
      range.Value = range.Value + 1
  \<close>
\<close>

definition button_example :: "(64 word \<Rightarrow> 64 word \<Rightarrow> 64 word) \<Rightarrow> 'o prog" where
  "button_example fadd =
     bnd xl_app (\<lambda>xl.
     lookup xl ''Range'' (
     Do (Call xl ''Range'' [PStr ''button_output'']) (\<lambda>range.
     Do (GetAttr range ''Value'') (\<lambda>v.
     case add_one fadd v of
       Inl e \<Rightarrow> Raise e
     | Inr w \<Rightarrow> Do (SetAttr range ''Value'' w) (\<lambda>_. Return PNone)))))"

text \<open>
  \<^verbatim>\<open>
  def checkbox_example():
      xl = xl_app()
      check_box = xl.ActiveSheet.CheckBoxes(xl.Caller)
      if check_box.Value == 1:
          xl.Range("checkbox_output").Value = 'CHECKED!'
      else:
          xl.Range("checkbox_output").Value = "Click the check box"
  \<close>
\<close>

definition checkbox_example :: "'o prog" where
  "checkbox_example =
     bnd xl_app (\<lambda>xl.
     Do (GetAttr xl ''ActiveSheet'') (\<lambda>sheet.
     lookup sheet ''CheckBoxes'' (
     Do (GetAttr xl ''Caller'') (\<lambda>caller.
     Do (Call sheet ''CheckBoxes'' [caller]) (\<lambda>check_box.
     Do (GetAttr check_box ''Value'') (\<lambda>v.
     if eq_one v then
       lookup xl ''Range'' (
       Do (Call xl ''Range'' [PStr ''checkbox_output'']) (\<lambda>r.
       Do (SetAttr r ''Value'' (PStr ''CHECKED!'')) (\<lambda>_. Return PNone)))
     else
       lookup xl ''Range'' (
       Do (Call xl ''Range'' [PStr ''checkbox_output'']) (\<lambda>r.
       Do (SetAttr r ''Value'' (PStr ''Click the check box'')) (\<lambda>_. Return PNone)))))))))"

text \<open>
  \<^verbatim>\<open>
  def scrollbar_example():
      xl = xl_app()
      caller = xl.Caller
      scrollbar = xl.ActiveSheet.ScrollBars(xl.Caller)
      xl.Range("scrollbar_output").Value = scrollbar.Value
  \<close>
  The right-hand side of the assignment is evaluated before its target, and the sheet's
  \<^verbatim>\<open>ScrollBars\<close> is looked up before \<^verbatim>\<open>xl.Caller\<close> is read again.
\<close>

definition scrollbar_example :: "'o prog" where
  "scrollbar_example =
     bnd xl_app (\<lambda>xl.
     Do (GetAttr xl ''Caller'') (\<lambda>caller.
     Do (GetAttr xl ''ActiveSheet'') (\<lambda>sheet.
     lookup sheet ''ScrollBars'' (
     Do (GetAttr xl ''Caller'') (\<lambda>caller2.
     Do (Call sheet ''ScrollBars'' [caller2]) (\<lambda>scrollbar.
     Do (GetAttr scrollbar ''Value'') (\<lambda>v.
     lookup xl ''Range'' (
     Do (Call xl ''Range'' [PStr ''scrollbar_output'']) (\<lambda>r.
     Do (SetAttr r ''Value'' v) (\<lambda>_. Return PNone))))))))))"

text \<open>
  \<^verbatim>\<open>
  def update_func():
      xl = xl_app()
      range = xl.Range(address)
      range = xl.Range(range.Resize(2, 1), range.Resize(rows+1, cols))
      range.Value = value
  \<close>
\<close>

definition update_func :: "'o pyval \<Rightarrow> int \<Rightarrow> int \<Rightarrow> 'o pyval \<Rightarrow> 'o prog" where
  "update_func address rows cols val =
     bnd xl_app (\<lambda>xl.
     lookup xl ''Range'' (
     Do (Call xl ''Range'' [address]) (\<lambda>range.
     lookup xl ''Range'' (
     lookup range ''Resize'' (
     Do (Call range ''Resize'' [PInt 2, PInt 1]) (\<lambda>c1.
     lookup range ''Resize'' (
     Do (Call range ''Resize'' [PInt (rows + 1), PInt cols]) (\<lambda>c2.
     Do (Call xl ''Range'' [c1, c2]) (\<lambda>range2.
     Do (SetAttr range2 ''Value'' val) (\<lambda>_. Return PNone))))))))))"

text \<open>What the environment runs when it calls a function it was given.\<close>

fun call_closure :: "'o closure \<Rightarrow> 'o prog" where
  "call_closure (Update_func address rows cols val) = update_func address rows cols val"

text \<open>
  \<^verbatim>\<open>
  def automation_example(rows, cols, value):
      caller = pyxll.xlfCaller()
      address = caller.address
      def update_func(): ...
      pyxll.async_call(update_func)
      return address
  \<close>
\<close>

definition automation_example :: "int \<Rightarrow> int \<Rightarrow> 'o pyval \<Rightarrow> 'o prog" where
  "automation_example rows cols val =
     Do XlfCaller (\<lambda>caller.
     Do (GetAttr caller ''address'') (\<lambda>address.
     Do (Async_call (Update_func address rows cols val)) (\<lambda>_.
     Return address)))"

text \<open>
  The body of the module, top to bottom: the imports, the logger, the guarded import of
  win32com.client, and the definitions with their decorators. A decorator and its
  application to the function are one request; the name is then bound to the function,
  which is what the decorators of PyXLL return.
\<close>

definition is_ImportError :: "exn \<Rightarrow> bool" where
  "is_ImportError e = (case e of ImportError _ \<Rightarrow> True | _ \<Rightarrow> False)"

definition definitions :: "'o prog" where
  "definitions =
     Store ''xl_app'' (Function Xl_app) (
     Do (Xl_menu ''win32com test'' ''More Examples'' Win32com_menu_test) (\<lambda>_.
     Store ''win32com_menu_test'' (Function Win32com_menu_test) (
     Do (Xl_macro Button_example) (\<lambda>_.
     Store ''button_example'' (Function Button_example) (
     Do (Xl_macro Checkbox_example) (\<lambda>_.
     Store ''checkbox_example'' (Function Checkbox_example) (
     Do (Xl_macro Scrollbar_example) (\<lambda>_.
     Store ''scrollbar_example'' (Function Scrollbar_example) (
     Do (Xl_func ''int rows, int cols, var value'' True Automation_example) (\<lambda>_.
     Store ''automation_example'' (Function Automation_example) (
     Return PNone)))))))))))"

definition module_body :: "'o prog" where
  "module_body =
     Do (Import ''pyxll'') (\<lambda>_.
     Store ''pyxll'' (Module ''pyxll'') (
     Do (Import_from ''pyxll'' [''xl_menu'', ''xl_func'', ''xl_macro'']) (\<lambda>_.
     Store ''xl_menu'' (Imported ''pyxll'' ''xl_menu'') (
     Store ''xl_func'' (Imported ''pyxll'' ''xl_func'') (
     Store ''xl_macro'' (Imported ''pyxll'' ''xl_macro'') (
     Do (Import ''logging'') (\<lambda>_.
     Store ''logging'' (Module ''logging'') (
     Store ''_log'' Logger (
     Try
       (Do (Import ''win32com.client'') (\<lambda>_.
        Store ''win32com'' (Module ''win32com'') (Return PNone)))
       is_ImportError
       (Do (Log_warning ''*** win32com.client could not be imported          ***'') (\<lambda>_.
        Do (Log_warning ''*** some of the automation examples will not work  ***'') (\<lambda>_.
        Do (Log_warning ''*** to fix this, install the pywin32 extensions.   ***'') (\<lambda>_.
        Return PNone))))
       definitions)))))))))"

text \<open>
  The body a registered function runs when Excel calls it. Only
  \<^verbatim>\<open>automation_example\<close> takes arguments.
\<close>

fun callback_prog ::
  "(64 word \<Rightarrow> 64 word \<Rightarrow> 64 word) \<Rightarrow> fn \<Rightarrow> int \<Rightarrow> int \<Rightarrow> 'o pyval \<Rightarrow> 'o prog" where
  "callback_prog fadd Xl_app rows cols val = xl_app"
| "callback_prog fadd Win32com_menu_test rows cols val = win32com_menu_test"
| "callback_prog fadd Button_example rows cols val = button_example fadd"
| "callback_prog fadd Checkbox_example rows cols val = checkbox_example"
| "callback_prog fadd Scrollbar_example rows cols val = scrollbar_example"
| "callback_prog fadd Automation_example rows cols val = automation_example rows cols val"

subsection \<open>What a trace holds\<close>

definition requests :: "'o trace \<Rightarrow> 'o request list" where
  "requests tr = map fst tr"

text \<open>A write is an assignment to an attribute; the module makes no other change to Excel.\<close>

definition is_write :: "'o request \<Rightarrow> bool" where
  "is_write r = (case r of SetAttr _ _ _ \<Rightarrow> True | _ \<Rightarrow> False)"

definition writes :: "'o trace \<Rightarrow> 'o request list" where
  "writes tr = filter is_write (requests tr)"

text \<open>The functions given to \<^verbatim>\<open>pyxll.async_call\<close>.\<close>

definition handed_over :: "'o trace \<Rightarrow> 'o closure list" where
  "handed_over tr =
     concat (map (\<lambda>r. case r of Async_call c \<Rightarrow> [c] | _ \<Rightarrow> []) (requests tr))"

text \<open>
  The requests of \<^verbatim>\<open>xl_app\<close>, by which a callback comes to the Application object, and
  the accesses of a property other than those: an attribute read, an attribute assigned,
  or one of \<^verbatim>\<open>Range\<close>, \<^verbatim>\<open>Resize\<close>, \<^verbatim>\<open>CheckBoxes\<close> and \<^verbatim>\<open>ScrollBars\<close>,
  which are properties that take arguments. What is asked of PyXLL (\<^verbatim>\<open>xlfCaller\<close>,
  \<^verbatim>\<open>xlcAlert\<close>, \<^verbatim>\<open>async_call\<close>) is no access of a property.
\<close>

definition is_resolution :: "'o request \<Rightarrow> bool" where
  "is_resolution r =
     (case r of
        Get_active_object \<Rightarrow> True
      | Dispatch _ \<Rightarrow> True
      | EnsureDispatch _ \<Rightarrow> True
      | GetAttr _ n \<Rightarrow> n = ''Application''
      | _ \<Rightarrow> False)"

definition is_property_access :: "'o request \<Rightarrow> bool" where
  "is_property_access r =
     (case r of
        GetAttr _ _ \<Rightarrow> True
      | SetAttr _ _ _ \<Rightarrow> True
      | Call _ _ _ \<Rightarrow> True
      | _ \<Rightarrow> False)"

definition accesses :: "'o trace \<Rightarrow> 'o request list" where
  "accesses tr = filter (\<lambda>r. is_property_access r \<and> \<not> is_resolution r) (requests tr)"

text \<open>The registrations a run of the module body makes, and what each one grants.\<close>

definition is_registration :: "'o request \<Rightarrow> bool" where
  "is_registration r =
     (case r of Xl_menu _ _ _ \<Rightarrow> True | Xl_macro _ \<Rightarrow> True | Xl_func _ _ _ \<Rightarrow> True | _ \<Rightarrow> False)"

definition registrations :: "'o trace \<Rightarrow> 'o request list" where
  "registrations tr = filter is_registration (requests tr)"

definition registered_fn :: "'o request \<Rightarrow> fn option" where
  "registered_fn r =
     (case r of
        Xl_menu _ _ f \<Rightarrow> Some f
      | Xl_macro f \<Rightarrow> Some f
      | Xl_func _ _ f \<Rightarrow> Some f
      | _ \<Rightarrow> None)"

definition registered :: "'o trace \<Rightarrow> fn list" where
  "registered tr = List.map_filter registered_fn (requests tr)"

text \<open>
  Menu functions and macros are commands, free to change documents; a worksheet function
  may do so only when it is registered with \<^verbatim>\<open>macro=True\<close>.
\<close>

definition full_access :: "'o request \<Rightarrow> bool" where
  "full_access r =
     (case r of
        Xl_menu _ _ _ \<Rightarrow> True
      | Xl_macro _ \<Rightarrow> True
      | Xl_func _ macro _ \<Rightarrow> macro
      | _ \<Rightarrow> False)"

definition warnings :: "'o trace \<Rightarrow> string list" where
  "warnings tr = concat (map (\<lambda>r. case r of Log_warning m \<Rightarrow> [m] | _ \<Rightarrow> []) (requests tr))"

text \<open>A program with no exception handler in it, and one that binds no module-level name.\<close>

primrec handler_free :: "'o prog \<Rightarrow> bool" where
  "handler_free (Return v) = True"
| "handler_free (Raise e) = True"
| "handler_free (Do r k) = (\<forall>v. handler_free (k v))"
| "handler_free (Load n k) = (\<forall>b. handler_free (k b))"
| "handler_free (Store n b p) = handler_free p"
| "handler_free (Try body matches handler rest) = False"




definition holds_value :: "'o binding \<Rightarrow> bool" where
  "holds_value b = (case b of Value _ \<Rightarrow> True | _ \<Rightarrow> False)"

text \<open>A property of the outcome of every run of a program from given module-level names.\<close>

definition every_run :: "'o prog \<Rightarrow> 'o globals \<Rightarrow> (('h, 'o) outcome \<Rightarrow> bool) \<Rightarrow> bool" where
  "every_run p g P = (\<forall>env s. P (run env p s g))"

subsection \<open>Two environments\<close>

text \<open>
  An environment that answers from a script, one answer for each request in turn, and
  with None once the script is over.
\<close>

fun script_env :: "('o answer list, 'o) env" where
  "script_env [] r = (Inr PNone, [])"
| "script_env (a # as) r = (a, as)"

text \<open>The module-level names when only \<^verbatim>\<open>win32com\<close> matters.\<close>

definition win32com_bound :: "'o globals" where
  "win32com_bound = [(''win32com'', Module ''win32com'')]"

text \<open>Stands for the addition of floats where none are added.\<close>

definition no_floats :: "64 word \<Rightarrow> 64 word \<Rightarrow> 64 word" where
  "no_floats x y = x"

text \<open>
  A function of the module can write when some run of it makes a write, or gives
  \<^verbatim>\<open>async_call\<close> a function of which some run makes one. The runs are taken against
  scripts, the objects named by strings.
\<close>

definition can_write :: "(64 word \<Rightarrow> 64 word \<Rightarrow> 64 word) \<Rightarrow> fn \<Rightarrow> bool" where
  "can_write fadd f =
     (\<exists>(script :: string answer list) g rows cols val.
        let out = run script_env (callback_prog fadd f rows cols val) script g in
          writes (trace out) \<noteq> [] \<or>
          (\<exists>c \<in> set (handed_over (trace out)). \<exists>script' g'.
             writes (trace (run script_env (call_closure c) script' g')) \<noteq> []))"

subsection \<open>A sheet\<close>

text \<open>
  A sheet of cells at integer rows and columns, and the objects that stand for its
  parts: the Excel window, its \<^verbatim>\<open>Dispatch\<close> wrapper, the Application, the cell PyXLL
  reports as the caller, and rectangles of cells given by top, left, bottom and right.
  Excel itself is no part of the module; this is the little of it that
  \<^verbatim>\<open>automation_example\<close> needs, as win32com presents it.
\<close>

datatype gobj = GWindow | GWrapper | GApp | GCell int int | GRange int int int int

record sheet =
  caller_cell :: "int \<times> int"
  caller_address :: string
  cells :: "int \<times> int \<Rightarrow> gobj pyval"
  deferred :: "gobj closure list"







section \<open>Reasoning about every run\<close>

text \<open>
  A property of every run of a program is shown along the program: at each request, for
  the run that ends there with an exception and for the runs that go on with an answer.
\<close>

lemmas trace_defs = after_def requests_def is_write_def writes_def handed_over_def
  is_resolution_def is_property_access_def accesses_def

lemmas prog_defs = xl_app_def win32com_menu_test_def button_example_def checkbox_example_def
  scrollbar_example_def update_func_def automation_example_def

text \<open>A run against a script, one answer after the other.\<close>

lemma run_Do_script:
  "refused r = None \<Longrightarrow>
   run script_env (Do r k) (Inr v # as) g = after [(r, Inr v)] (run script_env (k v) as g)"
  "refused r = None \<Longrightarrow>
   run script_env (Do r k) (Inl e # as) g =
     \<lparr>result = Inl e, host = as, globals = g, trace = [(r, Inl e)]\<rparr>"
  "refused r = None \<Longrightarrow>
   run script_env (Do r k) [] g = after [(r, Inr PNone)] (run script_env (k PNone) [] g)"
  "refused r = Some e \<Longrightarrow>
   run script_env (Do r k) as g = \<lparr>result = Inl e, host = as, globals = g, trace = [(r, Inl e)]\<rparr>"
  by simp_all

lemmas script_defs = run_Do_script refused_def lookup_def requests_def is_write_def writes_def
  handed_over_def is_resolution_def is_property_access_def accesses_def win32com_bound_def

text \<open>The three ways a request ends.\<close>

lemma run_Do_cases:
  obtains (refused) e where "refused r = Some e"
      "run env (Do r k) s g = \<lparr>result = Inl e, host = s, globals = g, trace = [(r, Inl e)]\<rparr>"
  | (raised) e s' where "refused r = None" "env s r = (Inl e, s')"
      "run env (Do r k) s g = \<lparr>result = Inl e, host = s', globals = g, trace = [(r, Inl e)]\<rparr>"
  | (answered) v s' where "refused r = None" "env s r = (Inr v, s')"
      "run env (Do r k) s g = after [(r, Inr v)] (run env (k v) s' g)"
proof (cases "refused r")
  case (Some e)
  then show ?thesis by (intro refused [of e]) simp_all
next
  case None
  obtain a s' where a: "env s r = (a, s')" by (cases "env s r")
  show ?thesis
  proof (cases a)
    case (Inl e)
    with None a show ?thesis by (intro raised [of e s']) simp_all
  next
    case (Inr v)
    with None a show ?thesis by (intro answered [of v s']) simp_all
  qed
qed

lemma every_run_Return:
  "(\<And>s. P \<lparr>result = Inr v, host = s, globals = g, trace = []\<rparr>) \<Longrightarrow> every_run (Return v) g P"
  by (simp add: every_run_def)

lemma every_run_Raise:
  "(\<And>s. P \<lparr>result = Inl e, host = s, globals = g, trace = []\<rparr>) \<Longrightarrow> every_run (Raise e) g P"
  by (simp add: every_run_def)

lemma every_run_Do:
  assumes "\<And>e s. P \<lparr>result = Inl e, host = s, globals = g, trace = [(r, Inl e)]\<rparr>"
    and "\<And>v. every_run (k v) g (\<lambda>out. P (after [(r, Inr v)] out))"
  shows "every_run (Do r k) g P"
  using assms by (auto simp: every_run_def split: prod.splits sum.splits option.splits)

lemma every_run_Load:
  assumes "\<And>s. map_of g n = None \<Longrightarrow>
      P \<lparr>result = Inl (NameError n), host = s, globals = g, trace = []\<rparr>"
    and "\<And>b. map_of g n = Some b \<Longrightarrow> every_run (k b) g P"
  shows "every_run (Load n k) g P"
  using assms by (auto simp: every_run_def split: option.splits)

lemma every_run_Store:
  "every_run p ((n, b) # g) P \<Longrightarrow> every_run (Store n b p) g P"
  by (simp add: every_run_def)

lemma every_run_if:
  "(c \<Longrightarrow> every_run p g P) \<Longrightarrow> (\<not> c \<Longrightarrow> every_run q g P) \<Longrightarrow>
   every_run (if c then p else q) g P"
  by simp

lemma every_run_case_sum:
  "(\<And>a. x = Inl a \<Longrightarrow> every_run (f a) g P) \<Longrightarrow> (\<And>b. x = Inr b \<Longrightarrow> every_run (h b) g P) \<Longrightarrow>
   every_run (case x of Inl a \<Rightarrow> f a | Inr b \<Rightarrow> h b) g P"
  by (cases x) simp_all

lemma every_run_lookup:
  assumes "is_object x \<Longrightarrow> every_run p g P"
    and "\<And>s. \<not> is_object x \<Longrightarrow>
      P \<lparr>result = Inl (AttributeError n), host = s, globals = g, trace = []\<rparr>"
  shows "every_run (lookup x n p) g P"
  using assms by (simp add: lookup_def every_run_def)

lemmas every_run_intros = every_run_Return every_run_Raise every_run_Do every_run_Load
  every_run_Store every_run_if every_run_case_sum every_run_lookup

lemma every_runD: "every_run p g P \<Longrightarrow> P (run env p s g)"
  by (simp add: every_run_def)

lemma after_simps [simp]:
  "result (after tr out) = result out"
  "host (after tr out) = host out"
  "globals (after tr out) = globals out"
  "trace (after tr out) = tr @ trace out"
  "after tr (after tr' out) = after (tr @ tr') out"
  by (simp_all add: after_def)

lemma run_bnd:
  "run env (bnd p f) s g =
     (let o1 = run env p s g in
      case result o1 of
        Inl e \<Rightarrow> o1
      | Inr v \<Rightarrow> after (trace o1) (run env (f v) (host o1) (globals o1)))"
proof (induction p arbitrary: s g)
  case (Do r k)
  then show ?case
    by (simp add: after_def Let_def split: prod.splits sum.splits option.splits)
next
  case (Try b m h k)
  then show ?case by (simp add: after_def Let_def split: prod.splits sum.splits)
qed (simp_all add: after_def Let_def split: option.splits)

text \<open>Inside the body of a \<open>Try\<close>.\<close>

lemma every_run_Try_Return:
  "every_run rest g P \<Longrightarrow> every_run (Try (Return v) matches handler rest) g P"
  by (simp add: every_run_def after_def)

lemma every_run_Try_Store:
  "every_run (Try p matches handler rest) ((n, b) # g) P \<Longrightarrow>
   every_run (Try (Store n b p) matches handler rest) g P"
  by (simp add: every_run_def)

lemma run_Try_Do_answered:
  assumes "refused r = None" and "env s r = (Inr v, s')"
  shows "run env (Try (Do r k) matches handler rest) s g =
     after [(r, Inr v)] (run env (Try (k v) matches handler rest) s' g)"
proof -
  let ?b = "run env (k v) s' g"
  let ?h = "run env handler (host ?b) (globals ?b)"
  have body: "run env (Do r k) s g = after [(r, Inr v)] ?b"
    using assms by simp
  show ?thesis
  proof (cases "result ?b")
    case (Inr w)
    then show ?thesis
      unfolding run.simps(6) [of env "Do r k"] run.simps(6) [of env "k v"] body
      by (simp add: Let_def after_def)
  next
    case (Inl e)
    show ?thesis
    proof (cases "matches e")
      case False
      with Inl show ?thesis
        unfolding run.simps(6) [of env "Do r k"] run.simps(6) [of env "k v"] body
        by (simp add: Let_def after_def)
    next
      case True
      with Inl show ?thesis
        unfolding run.simps(6) [of env "Do r k"] run.simps(6) [of env "k v"] body
        by (cases "result ?h") (simp_all add: Let_def after_def)
    qed
  qed
qed

lemma every_run_Try_Do:
  fixes P :: "('h, 'o) outcome \<Rightarrow> bool"
  assumes other: "\<And>e s. \<not> matches e \<Longrightarrow>
      P \<lparr>result = Inl e, host = s, globals = g, trace = [(r, Inl e)]\<rparr>"
    and caught: "\<And>e. matches e \<Longrightarrow>
      every_run (bnd handler (\<lambda>_. rest)) g (\<lambda>out. P (after [(r, Inl e)] out))"
    and answered': "\<And>v. every_run (Try (k v) matches handler rest) g
      (\<lambda>out. P (after [(r, Inr v)] out))"
  shows "every_run (Try (Do r k) matches handler rest) g P"
  unfolding every_run_def
proof (intro allI)
  fix env :: "('h, 'o) env" and s :: 'h
  show "P (run env (Try (Do r k) matches handler rest) s g)"
  proof (cases rule: run_Do_cases [of r env k s g])
    case (answered v s')
    from answered' [of v]
    have "P (after [(r, Inr v)] (run env (Try (k v) matches handler rest) s' g))"
      by (simp add: every_run_def)
    with answered(1,2) show ?thesis
      by (simp only: run_Try_Do_answered)
  next
    case (raised e s')
    show ?thesis
    proof (cases "matches e")
      case False
      with other [of e s'] raised(3) show ?thesis by (simp add: Let_def del: run.simps(3))
    next
      case True
      from caught [OF True]
      have "P (after [(r, Inl e)] (run env (bnd handler (\<lambda>_. rest)) s' g))"
        by (simp add: every_run_def)
      with raised(3) True show ?thesis
        by (simp add: run_bnd Let_def after_def del: run.simps(3) split: sum.splits)
    qed
  next
    case (refused e)
    show ?thesis
    proof (cases "matches e")
      case False
      with other [of e s] refused(2) show ?thesis by (simp add: Let_def del: run.simps(3))
    next
      case True
      from caught [OF True]
      have "P (after [(r, Inl e)] (run env (bnd handler (\<lambda>_. rest)) s g))"
        by (simp add: every_run_def)
      with refused(2) True show ?thesis
        by (simp add: run_bnd Let_def after_def del: run.simps(3) split: sum.splits)
    qed
  qed
qed

lemma every_run_bnd_Do:
  "every_run (Do r (\<lambda>v. bnd (k v) f)) g P \<Longrightarrow> every_run (bnd (Do r k) f) g P"
  by simp

lemma every_run_bnd_Return:
  "every_run (f v) g P \<Longrightarrow> every_run (bnd (Return v) f) g P"
  by simp

lemmas every_run_Try_intros = every_run_Try_Return every_run_Try_Store every_run_Try_Do
  every_run_bnd_Do every_run_bnd_Return



subsection \<open>Where Excel answers None\<close>

text \<open>
  Excel answers \<^verbatim>\<open>Selection\<close> and \<^verbatim>\<open>ActiveSheet\<close> with None when there is none.
  The menu function then fails at the assignment, which Excel does not see, and shows no
  alert; the two macros fail where they look \<^verbatim>\<open>CheckBoxes\<close> or \<^verbatim>\<open>ScrollBars\<close> up,
  before \<^verbatim>\<open>xl.Caller\<close> is read: the answer the script holds for it is left over.
\<close>

lemma win32com_menu_test_without_a_selection:
  "let out = run script_env win32com_menu_test
       [Inr (PObj ''window''), Inr (PObj ''dispatch''), Inr (PObj ''app''),
        Inr (PObj ''app''), Inr PNone] win32com_bound in
     result out = Inl (AttributeError ''Value'') \<and>
     requests (trace out) =
       [Get_active_object, Dispatch (PObj ''window''),
        GetAttr (PObj ''dispatch'') ''Application'', EnsureDispatch (PObj ''app''),
        GetAttr (PObj ''app'') ''Selection'', SetAttr PNone ''Value'' (PStr ''Hello!'')] \<and>
     host out = []"
  by (simp add: prog_defs script_defs del: run.simps(3))

lemma checkbox_example_without_a_sheet:
  "let out = run script_env checkbox_example
       [Inr (PObj ''window''), Inr (PObj ''dispatch''), Inr (PObj ''app''),
        Inr (PObj ''app''), Inr PNone, Inr (PStr ''Check Box 1'')] win32com_bound in
     result out = Inl (AttributeError ''CheckBoxes'') \<and>
     requests (trace out) =
       [Get_active_object, Dispatch (PObj ''window''),
        GetAttr (PObj ''dispatch'') ''Application'', EnsureDispatch (PObj ''app''),
        GetAttr (PObj ''app'') ''ActiveSheet''] \<and>
     host out = [Inr (PStr ''Check Box 1'')]"
  by (simp add: prog_defs script_defs del: run.simps(3))

lemma scrollbar_example_without_a_sheet:
  "let out = run script_env scrollbar_example
       [Inr (PObj ''window''), Inr (PObj ''dispatch''), Inr (PObj ''app''),
        Inr (PObj ''app''), Inr (PStr ''Scroll Bar 1''), Inr PNone,
        Inr (PStr ''Scroll Bar 1'')] win32com_bound in
     result out = Inl (AttributeError ''ScrollBars'') \<and>
     requests (trace out) =
       [Get_active_object, Dispatch (PObj ''window''),
        GetAttr (PObj ''dispatch'') ''Application'', EnsureDispatch (PObj ''app''),
        GetAttr (PObj ''app'') ''Caller'', GetAttr (PObj ''app'') ''ActiveSheet''] \<and>
     host out = [Inr (PStr ''Scroll Bar 1'')]"
  by (simp add: prog_defs script_defs del: run.simps(3))

section \<open>The write of automation\_example is deferred\<close>

lemma automation_example_runs:
  "every_run (automation_example rows cols val) g (\<lambda>out.
     writes (trace out) = [] \<and>
     (\<exists>caller address. requests (trace out) =
        take (length (trace out))
          [XlfCaller, GetAttr caller ''address'',
           Async_call (Update_func address rows cols val)]) \<and>
     (\<forall>v. result out = Inr v \<longrightarrow>
        (\<exists>caller x. trace out =
           [(XlfCaller, Inr caller), (GetAttr caller ''address'', Inr v),
            (Async_call (Update_func v rows cols val), Inr x)])) \<and>
     (\<forall>c \<in> set (handed_over (trace out)). \<exists>address. c = Update_func address rows cols val))"
  unfolding prog_defs bnd.simps by (intro every_run_intros; simp add: trace_defs)

lemma update_func_runs:
  "every_run (update_func address rows cols val) g (\<lambda>out.
     length (writes (trace out)) \<le> 1 \<and>
     (\<forall>w. result out = Inr w \<longrightarrow>
        (\<exists>rng. writes (trace out) = [SetAttr rng ''Value'' val] \<and>
               last (requests (trace out)) = SetAttr rng ''Value'' val)))"
  unfolding prog_defs bnd.simps by (intro every_run_intros; simp add: trace_defs)

text \<open>
  C1. In every run of \<^verbatim>\<open>automation_example\<close> the body itself makes no write: it asks
  for the caller, reads its address, gives \<^verbatim>\<open>update_func\<close> to
  \<^verbatim>\<open>pyxll.async_call\<close> and returns the address it read. The write is made by the
  function given to \<^verbatim>\<open>async_call\<close>, when that is run: at most one, and in a run that
  returns exactly one, of the input value, as its last request.
\<close>

theorem automation_example_defers_the_write:
  "let out = run env (automation_example rows cols val) s g in
     writes (trace out) = [] \<and>
     (\<exists>caller address. requests (trace out) =
        take (length (trace out))
          [XlfCaller, GetAttr caller ''address'',
           Async_call (Update_func address rows cols val)]) \<and>
     (\<forall>v. result out = Inr v \<longrightarrow>
        (\<exists>caller x. trace out =
           [(XlfCaller, Inr caller), (GetAttr caller ''address'', Inr v),
            (Async_call (Update_func v rows cols val), Inr x)])) \<and>
     (\<forall>c \<in> set (handed_over (trace out)). \<forall>env' s' g'.
        let out' = run env' (call_closure c) s' g' in
          length (writes (trace out')) \<le> 1 \<and>
          (\<forall>w. result out' = Inr w \<longrightarrow>
             (\<exists>rng. writes (trace out') = [SetAttr rng ''Value'' val] \<and>
                    last (requests (trace out')) = SetAttr rng ''Value'' val)))"
proof -
  define out where "out = run env (automation_example rows cols val) s g"
  note a = every_runD [OF automation_example_runs [of rows cols val g], of env s, folded out_def]
  have "\<forall>c \<in> set (handed_over (trace out)). \<forall>env' s' g'.
        let out' = run env' (call_closure c) s' g' in
          length (writes (trace out')) \<le> 1 \<and>
          (\<forall>w. result out' = Inr w \<longrightarrow>
             (\<exists>rng. writes (trace out') = [SetAttr rng ''Value'' val] \<and>
                    last (requests (trace out')) = SetAttr rng ''Value'' val))"
  proof (intro ballI allI)
    fix c env' s' g'
    assume "c \<in> set (handed_over (trace out))"
    with a obtain address where c: "c = Update_func address rows cols val" by blast
    show "let out' = run env' (call_closure c) s' g' in
          length (writes (trace out')) \<le> 1 \<and>
          (\<forall>w. result out' = Inr w \<longrightarrow>
             (\<exists>rng. writes (trace out') = [SetAttr rng ''Value'' val] \<and>
                    last (requests (trace out')) = SetAttr rng ''Value'' val))"
      unfolding c call_closure.simps Let_def
      by (rule every_runD [OF update_func_runs])
  qed
  with a show ?thesis unfolding Let_def out_def [symmetric] by blast
qed

theorem automation_example_defers_the_write_witness:
  "let out = run script_env (automation_example 2 3 (PInt 7))
               [Inr (PObj ''cell''), Inr (PStr ''$B$2''), Inr PNone] [] in
     result out = Inr (PStr ''$B$2'') \<and>
     writes (trace out) = [] \<and>
     handed_over (trace out) = [Update_func (PStr ''$B$2'') 2 3 (PInt 7)] \<and>
     (let out' = run script_env (call_closure (Update_func (PStr ''$B$2'') 2 3 (PInt 7)))
            [Inr (PObj ''window''), Inr (PObj ''dispatch''), Inr (PObj ''app''), Inr (PObj ''app''),
             Inr (PObj ''B2''), Inr (PObj ''B3''), Inr (PObj ''D4''), Inr (PObj ''B3:D4'')] win32com_bound in
      result out' = Inr PNone \<and> writes (trace out') = [SetAttr (PObj ''B3:D4'') ''Value'' (PInt 7)])"
  using automation_example_defers_the_write [of script_env 2 3 "PInt 7"
      "[Inr (PObj ''cell''), Inr (PStr ''$B$2''), Inr PNone]" "[]"]
  by (simp add: prog_defs script_defs del: run.simps(3))

section \<open>Exceptions pass through the callbacks\<close>

lemma handler_free_propagates:
  "handler_free p \<Longrightarrow> (r, Inl e) \<in> set (trace (run env p s g)) \<Longrightarrow>
   result (run env p s g) = Inl e"
proof (induction p arbitrary: s g)
  case (Do r' k)
  show ?case
  proof (cases rule: run_Do_cases [of r' env k s g])
    case (refused e')
    with Do.prems show ?thesis by (simp del: run.simps(3))
  next
    case (raised e' s')
    with Do.prems show ?thesis by (simp del: run.simps(3))
  next
    case (answered v s')
    from Do.prems have "handler_free (k v)" by simp
    moreover from answered(3) Do.prems
    have "(r, Inl e) \<in> set (trace (run env (k v) s' g))"
      by (simp add: after_def del: run.simps(3))
    ultimately have "result (run env (k v) s' g) = Inl e"
      by (rule Do.IH [OF rangeI])
    with answered(3) show ?thesis by (simp add: after_def del: run.simps(3))
  qed
next
  case (Load n k)
  then show ?case by (cases "map_of g n") auto
qed simp_all

lemma callback_prog_handler_free: "handler_free (callback_prog fadd f rows cols val)"
  by (cases f) (simp_all add: prog_defs lookup_def split: sum.splits)

lemma update_func_handler_free: "handler_free (update_func address rows cols val)"
  by (simp add: prog_defs lookup_def)

text \<open>
  C3. No callback that the module registers has an exception handler in it, and neither
  has the function \<^verbatim>\<open>automation_example\<close> defers. So in every run, an exception with
  which the other side answers a request of the callback is the outcome of the callback,
  as it was raised.
\<close>

theorem callbacks_let_exceptions_through:
  fixes env0 :: "('i, 'o) env" and env :: "('h, 'o) env"
  shows
  "(\<forall>f \<in> set (registered (trace (run env0 module_body s0 []))).
      handler_free (callback_prog fadd f rows cols val) \<and>
      (\<forall>r e. (r, Inl e) \<in> set (trace (run env (callback_prog fadd f rows cols val) s g)) \<longrightarrow>
         result (run env (callback_prog fadd f rows cols val) s g) = Inl e)) \<and>
   handler_free (call_closure c) \<and>
   (\<forall>r e. (r, Inl e) \<in> set (trace (run env (call_closure c) s g)) \<longrightarrow>
      result (run env (call_closure c) s g) = Inl e)"
proof -
  have "handler_free (call_closure c)"
    by (cases c) (simp add: update_func_handler_free)
  then show ?thesis
    by (blast intro: callback_prog_handler_free handler_free_propagates)
qed

theorem callbacks_let_exceptions_through_witness:
  "registered (trace (run script_env module_body ([] :: string answer list) [])) =
     [Win32com_menu_test, Button_example, Checkbox_example, Scrollbar_example,
      Automation_example] \<and>
   (let out = run script_env (callback_prog no_floats Button_example 0 0 PNone)
        [Inr (PObj ''window''), Inr (PObj ''dispatch''), Inr (PObj ''app''),
         Inr (PObj ''app''), Inl (Com_error 1004)] win32com_bound in
    trace out ! 4 =
      (Call (PObj ''app'') ''Range'' [PStr ''button_output''], Inl (Com_error 1004)) \<and>
    result out = Inl (Com_error 1004))"
proof -
  let ?script = "[Inr (PObj ''window''), Inr (PObj ''dispatch''), Inr (PObj ''app''),
         Inr (PObj ''app''), Inl (Com_error 1004)] :: string answer list"
  let ?out = "run script_env (callback_prog no_floats Button_example 0 0 PNone)
        ?script win32com_bound"
  have reg: "registered (trace (run script_env module_body ([] :: string answer list) [])) =
     [Win32com_menu_test, Button_example, Checkbox_example, Scrollbar_example,
      Automation_example]"
    by code_simp
  have tr: "trace ?out ! 4 =
      (Call (PObj ''app'') ''Range'' [PStr ''button_output''], Inl (Com_error 1004))"
    by (simp add: prog_defs script_defs del: run.simps(3))
  then have "(Call (PObj ''app'') ''Range'' [PStr ''button_output''], Inl (Com_error 1004))
      \<in> set (trace ?out)"
    by (simp add: prog_defs script_defs del: run.simps(3))
  moreover from callbacks_let_exceptions_through [of script_env "[]" no_floats 0 0 PNone
        script_env ?script win32com_bound] reg
  have "\<forall>r e. (r, Inl e) \<in> set (trace ?out) \<longrightarrow> result ?out = Inl e"
    by simp
  ultimately have "result ?out = Inl (Com_error 1004)"
    by blast
  with reg tr show ?thesis by (simp add: Let_def)
qed

section \<open>What the module registers\<close>

lemmas module_defs = module_body_def definitions_def

lemmas reg_defs = registrations_def is_registration_def registered_def registered_fn_def
  full_access_def warnings_def holds_value_def is_ImportError_def

lemma module_body_registrations:
  "every_run module_body [] (\<lambda>m.
     list_all (\<lambda>r. r \<in> 
       {Xl_menu ''win32com test'' ''More Examples'' Win32com_menu_test,
        Xl_macro Button_example, Xl_macro Checkbox_example, Xl_macro Scrollbar_example,
        Xl_func ''int rows, int cols, var value'' True Automation_example}) (registrations (trace m)) \<and>
     (\<forall>v. result m = Inr v \<longrightarrow> registrations (trace m) =
        [Xl_menu ''win32com test'' ''More Examples'' Win32com_menu_test,
         Xl_macro Button_example, Xl_macro Checkbox_example, Xl_macro Scrollbar_example,
         Xl_func ''int rows, int cols, var value'' True Automation_example]))"
  unfolding module_defs
  by (intro every_run_intros every_run_Try_intros; simp add: trace_defs reg_defs)


lemma module_body_missing_win32com:
  "every_run module_body [] (\<lambda>m.
     (Import ''win32com.client'', Inl (ImportError msg)) \<in> set (trace m) \<longrightarrow>
       (\<forall>e. result m = Inl e \<longrightarrow>
          (\<exists>r. r \<noteq> Import ''win32com.client'' \<and> last (trace m) = (r, Inl e))) \<and>
       (\<forall>v. result m = Inr v \<longrightarrow>
          warnings (trace m) =
            [''*** win32com.client could not be imported          ***'',
             ''*** some of the automation examples will not work  ***'',
             ''*** to fix this, install the pywin32 extensions.   ***''] \<and>
          map_of (globals m) ''win32com'' = None))"
  unfolding module_defs
  by (intro every_run_intros every_run_Try_intros; auto simp add: trace_defs reg_defs)

lemma xl_app_never_writes:
  "every_run xl_app g (\<lambda>out. writes (trace out) = [] \<and> handed_over (trace out) = [])"
  unfolding prog_defs by (intro every_run_intros; simp add: trace_defs)

lemma can_writeI:
  fixes script :: "string answer list"
  assumes "writes (trace (run script_env (callback_prog fadd f rows cols val) script g)) \<noteq> []"
  shows "can_write fadd f"
  unfolding can_write_def Let_def
  by (rule exI [of _ script], rule exI [of _ g], rule exI [of _ rows], rule exI [of _ cols],
      rule exI [of _ val], rule disjI1, rule assms)

lemma can_write_deferredI:
  fixes script script' :: "string answer list"
  assumes "c \<in> set (handed_over (trace (run script_env (callback_prog fadd f rows cols val) script g)))"
    and "writes (trace (run script_env (call_closure c) script' g')) \<noteq> []"
  shows "can_write fadd f"
  unfolding can_write_def Let_def
  by (rule exI [of _ script], rule exI [of _ g], rule exI [of _ rows], rule exI [of _ cols],
      rule exI [of _ val], rule disjI2, rule bexI [OF _ assms(1)], rule exI [of _ script'],
      rule exI [of _ g'], rule assms(2))

lemma can_write_iff: "can_write fadd f \<longleftrightarrow> f \<noteq> Xl_app"
proof (cases f)
  case Xl_app
  have "writes (trace (run script_env xl_app script g)) = [] \<and>
      handed_over (trace (run script_env xl_app script g)) = []"
    for script :: "string answer list" and g
    by (rule every_runD [OF xl_app_never_writes])
  then have "\<not> can_write fadd Xl_app"
    by (simp add: can_write_def)
  with Xl_app show ?thesis by simp
next
  case Win32com_menu_test
  have "can_write fadd Win32com_menu_test"
    by (rule can_writeI [where rows = 0 and cols = 0 and val = PNone and g = win32com_bound
          and script = "[Inr (PObj ''window''), Inr (PObj ''dispatch''), Inr (PObj ''app''),
            Inr (PObj ''app''), Inr (PObj ''selection'')]"])
      (simp add: prog_defs script_defs del: run.simps(3))
  with Win32com_menu_test show ?thesis by simp
next
  case Button_example
  have "can_write fadd Button_example"
    by (rule can_writeI [where rows = 0 and cols = 0 and val = PNone and g = win32com_bound
          and script = "[Inr (PObj ''window''), Inr (PObj ''dispatch''), Inr (PObj ''app''),
            Inr (PObj ''app''), Inr (PObj ''range''), Inr (PInt 41)]"])
      (simp add: prog_defs script_defs del: run.simps(3))
  with Button_example show ?thesis by simp
next
  case Checkbox_example
  have "can_write fadd Checkbox_example"
    by (rule can_writeI [where rows = 0 and cols = 0 and val = PNone and g = win32com_bound
          and script = "[Inr (PObj ''window''), Inr (PObj ''dispatch''), Inr (PObj ''app''),
            Inr (PObj ''app''), Inr (PObj ''sheet''), Inr (PStr ''Check Box 1''),
            Inr (PObj ''check_box''), Inr (PInt 1), Inr (PObj ''range'')]"])
      (simp add: prog_defs script_defs del: run.simps(3))
  with Checkbox_example show ?thesis by simp
next
  case Scrollbar_example
  have "can_write fadd Scrollbar_example"
    by (rule can_writeI [where rows = 0 and cols = 0 and val = PNone and g = win32com_bound
          and script = "[Inr (PObj ''window''), Inr (PObj ''dispatch''), Inr (PObj ''app''),
            Inr (PObj ''app''), Inr (PStr ''Scroll Bar 1''), Inr (PObj ''sheet''),
            Inr (PStr ''Scroll Bar 1''), Inr (PObj ''scrollbar''), Inr (PInt 5),
            Inr (PObj ''range'')]"])
      (simp add: prog_defs script_defs del: run.simps(3))
  with Scrollbar_example show ?thesis by simp
next
  case Automation_example
  let ?c = "Update_func (PStr ''$B$2'') 2 3 (PInt 7) :: string closure"
  have h: "?c \<in> set (handed_over (trace (run script_env (automation_example 2 3 (PInt 7))
      [Inr (PObj ''cell''), Inr (PStr ''$B$2'')] [])))"
    by (simp add: prog_defs script_defs del: run.simps(3))
  have w: "writes (trace (run script_env (call_closure ?c)
      [Inr (PObj ''window''), Inr (PObj ''dispatch''), Inr (PObj ''app''), Inr (PObj ''app''),
       Inr (PObj ''B2''), Inr (PObj ''B3''), Inr (PObj ''D4''), Inr (PObj ''B3:D4'')]
      win32com_bound)) \<noteq> []"
    by (simp add: prog_defs script_defs del: run.simps(3))
  from h w have "can_write fadd Automation_example"
    by (rule can_write_deferredI [where f = Automation_example, unfolded callback_prog.simps])
  with Automation_example show ?thesis by simp
qed

text \<open>
  C4. A run of the module body that ends without an exception has made five
  registrations: the menu function and the three macros as commands, and
  \<^verbatim>\<open>automation_example\<close> as a worksheet function with \<^verbatim>\<open>macro=True\<close>. Whatever
  a run registers has full access, so no plain worksheet function is registered at all,
  and the functions that can write are those five, \<^verbatim>\<open>automation_example\<close> through the
  function it defers.
\<close>

theorem registrations_carry_capabilities:
  fixes env :: "('h, 'o) env"
  shows
  "let m = run env module_body s [] in
     (\<forall>v. result m = Inr v \<longrightarrow> registrations (trace m) =
        [Xl_menu ''win32com test'' ''More Examples'' Win32com_menu_test,
         Xl_macro Button_example, Xl_macro Checkbox_example, Xl_macro Scrollbar_example,
         Xl_func ''int rows, int cols, var value'' True Automation_example]) \<and>
     (\<forall>r \<in> set (registrations (trace m)).
        full_access r \<and>
        (\<forall>f. registered_fn r = Some f \<longrightarrow> can_write fadd f) \<and>
        (registered_fn r = Some Automation_example \<longrightarrow>
           r = Xl_func ''int rows, int cols, var value'' True Automation_example)) \<and>
     (\<forall>f. can_write fadd f \<longrightarrow>
        f \<in> {Win32com_menu_test, Button_example, Checkbox_example, Scrollbar_example,
             Automation_example})"
proof -
  define m where "m = run env module_body s []"
  note a = every_runD [OF module_body_registrations, of env s, folded m_def]
  have "\<forall>f. can_write fadd f \<longrightarrow>
        f \<in> {Win32com_menu_test, Button_example, Checkbox_example, Scrollbar_example,
             Automation_example}"
  proof (intro allI impI)
    fix f assume "can_write fadd f"
    then have "f \<noteq> Xl_app" by (simp add: can_write_iff)
    then show "f \<in> {Win32com_menu_test, Button_example, Checkbox_example, Scrollbar_example,
             Automation_example}"
      by (cases f) simp_all
  qed
  moreover have "\<forall>r \<in> set (registrations (trace m)).
        full_access r \<and>
        (\<forall>f. registered_fn r = Some f \<longrightarrow> can_write fadd f) \<and>
        (registered_fn r = Some Automation_example \<longrightarrow>
           r = Xl_func ''int rows, int cols, var value'' True Automation_example)"
  proof
    fix r assume "r \<in> set (registrations (trace m))"
    with a have "r \<in> {Xl_menu ''win32com test'' ''More Examples'' Win32com_menu_test,
        Xl_macro Button_example, Xl_macro Checkbox_example, Xl_macro Scrollbar_example,
        Xl_func ''int rows, int cols, var value'' True Automation_example}"
      by (simp add: list_all_iff)
    then show "full_access r \<and>
        (\<forall>f. registered_fn r = Some f \<longrightarrow> can_write fadd f) \<and>
        (registered_fn r = Some Automation_example \<longrightarrow>
           r = Xl_func ''int rows, int cols, var value'' True Automation_example)"
      by (auto simp add: full_access_def registered_fn_def can_write_iff)
  qed
  ultimately show ?thesis
    using a unfolding Let_def m_def [symmetric] by blast
qed

theorem registrations_carry_capabilities_witness:
  "(let m = run script_env module_body ([] :: string answer list) [] in
     result m = Inr PNone \<and>
     registrations (trace m) =
        [Xl_menu ''win32com test'' ''More Examples'' Win32com_menu_test,
         Xl_macro Button_example, Xl_macro Checkbox_example, Xl_macro Scrollbar_example,
         Xl_func ''int rows, int cols, var value'' True Automation_example]) \<and>
   can_write no_floats Automation_example \<and>
   full_access (Xl_func ''int rows, int cols, var value'' True Automation_example
     :: string request)"
proof -
  let ?m = "run script_env module_body ([] :: string answer list) []"
  let ?r = "Xl_func ''int rows, int cols, var value'' True Automation_example :: string request"
  have res: "result ?m = Inr PNone"
    by code_simp
  note c4 = registrations_carry_capabilities [of script_env "[]" no_floats, unfolded Let_def]
  from c4 res have regs: "registrations (trace ?m) =
        [Xl_menu ''win32com test'' ''More Examples'' Win32com_menu_test,
         Xl_macro Button_example, Xl_macro Checkbox_example, Xl_macro Scrollbar_example,
         ?r]"
    by blast
  then have "?r \<in> set (registrations (trace ?m))"
    by simp
  with c4 have "full_access ?r \<and> (\<forall>f. registered_fn ?r = Some f \<longrightarrow> can_write no_floats f)"
    by blast
  then have "full_access ?r \<and> can_write no_floats Automation_example"
    by (simp add: registered_fn_def)
  with res regs show ?thesis
    by (simp add: Let_def)
qed

section \<open>Nothing of Excel is kept\<close>









section \<open>Without win32com\<close>

lemma callback_without_win32com:
  assumes "map_of g ''win32com'' = None" and "f \<noteq> Automation_example"
  shows "every_run (callback_prog fadd f rows cols val) g (\<lambda>out.
     writes (trace out) = [] \<and>
     ((\<exists>w. trace out = [(Get_active_object, Inr w)] \<and>
           result out = Inl (NameError ''win32com'')) \<or>
      (\<exists>e. trace out = [(Get_active_object, Inl e)] \<and> result out = Inl e)))"
  using assms
  by (cases f; simp add: prog_defs)
     (intro every_run_intros; simp add: trace_defs)+

lemma update_func_without_win32com:
  assumes "map_of g ''win32com'' = None"
  shows "every_run (update_func address rows cols val) g (\<lambda>out.
     writes (trace out) = [] \<and>
     ((\<exists>w. trace out = [(Get_active_object, Inr w)] \<and>
           result out = Inl (NameError ''win32com'')) \<or>
      (\<exists>e. trace out = [(Get_active_object, Inl e)] \<and> result out = Inl e)))"
  using assms unfolding prog_defs bnd.simps
  by (intro every_run_intros; simp add: trace_defs)

lemma automation_example_raises_nothing:
  "every_run (automation_example rows cols val) g (\<lambda>out.
     \<forall>e. result out = Inl e \<longrightarrow> (\<exists>r. last (trace out) = (r, Inl e)))"
  unfolding prog_defs by (intro every_run_intros; simp add: trace_defs)

text \<open>
  C7. Take a run of the module body in which the import of win32com.client raised
  ImportError. The exception is caught: if the run ends with an exception at all, it is
  one raised by a later request. If it ends without one, the three warnings were logged,
  all five registrations were made and \<^verbatim>\<open>win32com\<close> is not bound. From then on every
  registered callback but \<^verbatim>\<open>automation_example\<close>, and the function that one defers,
  gets as far as \<^verbatim>\<open>pyxll.get_active_object()\<close> in \<^verbatim>\<open>xl_app\<close> and, if that
  succeeds, raises NameError for \<^verbatim>\<open>win32com\<close>, with no write made;
  \<^verbatim>\<open>automation_example\<close> itself raises nothing of its own.
\<close>

theorem missing_win32com_fails_in_xl_app:
  fixes env0 :: "('i, 'o) env" and env :: "('h, 'o) env"
  shows
  "let m = run env0 module_body s0 [] in
     (Import ''win32com.client'', Inl (ImportError msg)) \<in> set (trace m) \<longrightarrow>
       (\<forall>e. result m = Inl e \<longrightarrow>
          (\<exists>r. r \<noteq> Import ''win32com.client'' \<and> last (trace m) = (r, Inl e))) \<and>
       (\<forall>v. result m = Inr v \<longrightarrow>
          warnings (trace m) =
            [''*** win32com.client could not be imported          ***'',
             ''*** some of the automation examples will not work  ***'',
             ''*** to fix this, install the pywin32 extensions.   ***''] \<and>
          registrations (trace m) =
            [Xl_menu ''win32com test'' ''More Examples'' Win32com_menu_test,
             Xl_macro Button_example, Xl_macro Checkbox_example, Xl_macro Scrollbar_example,
             Xl_func ''int rows, int cols, var value'' True Automation_example] \<and>
          map_of (globals m) ''win32com'' = None \<and>
          (\<forall>f \<in> set (registered (trace m)).
             let out = run env (callback_prog fadd f rows cols val) s (globals m) in
               if f = Automation_example
               then \<forall>e. result out = Inl e \<longrightarrow> (\<exists>r. last (trace out) = (r, Inl e))
               else writes (trace out) = [] \<and>
                 ((\<exists>w. trace out = [(Get_active_object, Inr w)] \<and>
                       result out = Inl (NameError ''win32com'')) \<or>
                  (\<exists>e. trace out = [(Get_active_object, Inl e)] \<and> result out = Inl e))) \<and>
          (let out = run env (update_func address rows cols val) s (globals m) in
             writes (trace out) = [] \<and>
             ((\<exists>w. trace out = [(Get_active_object, Inr w)] \<and>
                   result out = Inl (NameError ''win32com'')) \<or>
              (\<exists>e. trace out = [(Get_active_object, Inl e)] \<and> result out = Inl e))))"
proof -
  define m where "m = run env0 module_body s0 []"
  note regs = every_runD [OF module_body_registrations, of env0 s0, folded m_def]
  note miss = every_runD [OF module_body_missing_win32com, of msg env0 s0, folded m_def]
  have later: "(\<forall>f \<in> set (registered (trace m)).
             let out = run env (callback_prog fadd f rows cols val) s (globals m) in
               if f = Automation_example
               then \<forall>e. result out = Inl e \<longrightarrow> (\<exists>r. last (trace out) = (r, Inl e))
               else writes (trace out) = [] \<and>
                 ((\<exists>w. trace out = [(Get_active_object, Inr w)] \<and>
                       result out = Inl (NameError ''win32com'')) \<or>
                  (\<exists>e. trace out = [(Get_active_object, Inl e)] \<and> result out = Inl e))) \<and>
          (let out = run env (update_func address rows cols val) s (globals m) in
             writes (trace out) = [] \<and>
             ((\<exists>w. trace out = [(Get_active_object, Inr w)] \<and>
                   result out = Inl (NameError ''win32com'')) \<or>
              (\<exists>e. trace out = [(Get_active_object, Inl e)] \<and> result out = Inl e)))"
    if unbound: "map_of (globals m) ''win32com'' = None"
  proof (intro conjI ballI)
    fix f
    show "let out = run env (callback_prog fadd f rows cols val) s (globals m) in
               if f = Automation_example
               then \<forall>e. result out = Inl e \<longrightarrow> (\<exists>r. last (trace out) = (r, Inl e))
               else writes (trace out) = [] \<and>
                 ((\<exists>w. trace out = [(Get_active_object, Inr w)] \<and>
                       result out = Inl (NameError ''win32com'')) \<or>
                  (\<exists>e. trace out = [(Get_active_object, Inl e)] \<and> result out = Inl e))"
    proof (cases "f = Automation_example")
      case True
      show ?thesis
        unfolding Let_def True callback_prog.simps
        by (subst if_P [OF refl], rule every_runD [OF automation_example_raises_nothing])
    next
      case False
      show ?thesis
        unfolding Let_def if_not_P [OF False]
        by (rule every_runD [OF callback_without_win32com [OF unbound False]])
    qed
  next
    show "let out = run env (update_func address rows cols val) s (globals m) in
             writes (trace out) = [] \<and>
             ((\<exists>w. trace out = [(Get_active_object, Inr w)] \<and>
                   result out = Inl (NameError ''win32com'')) \<or>
              (\<exists>e. trace out = [(Get_active_object, Inl e)] \<and> result out = Inl e))"
      unfolding Let_def
      by (rule every_runD [OF update_func_without_win32com [OF unbound]])
  qed
  show ?thesis
    unfolding m_def [symmetric] Let_def [of m]
  proof (intro impI)
    assume failed: "(Import ''win32com.client'', Inl (ImportError msg)) \<in> set (trace m)"
    with miss have exn: "\<forall>e. result m = Inl e \<longrightarrow>
          (\<exists>r. r \<noteq> Import ''win32com.client'' \<and> last (trace m) = (r, Inl e))"
      and ok: "\<forall>v. result m = Inr v \<longrightarrow>
          warnings (trace m) =
            [''*** win32com.client could not be imported          ***'',
             ''*** some of the automation examples will not work  ***'',
             ''*** to fix this, install the pywin32 extensions.   ***''] \<and>
          map_of (globals m) ''win32com'' = None"
      by simp_all
    from regs have all: "\<forall>v. result m = Inr v \<longrightarrow> registrations (trace m) =
            [Xl_menu ''win32com test'' ''More Examples'' Win32com_menu_test,
             Xl_macro Button_example, Xl_macro Checkbox_example, Xl_macro Scrollbar_example,
             Xl_func ''int rows, int cols, var value'' True Automation_example]"
      by simp
    show "(\<forall>e. result m = Inl e \<longrightarrow>
          (\<exists>r. r \<noteq> Import ''win32com.client'' \<and> last (trace m) = (r, Inl e))) \<and>
       (\<forall>v. result m = Inr v \<longrightarrow>
          warnings (trace m) =
            [''*** win32com.client could not be imported          ***'',
             ''*** some of the automation examples will not work  ***'',
             ''*** to fix this, install the pywin32 extensions.   ***''] \<and>
          registrations (trace m) =
            [Xl_menu ''win32com test'' ''More Examples'' Win32com_menu_test,
             Xl_macro Button_example, Xl_macro Checkbox_example, Xl_macro Scrollbar_example,
             Xl_func ''int rows, int cols, var value'' True Automation_example] \<and>
          map_of (globals m) ''win32com'' = None \<and>
          (\<forall>f \<in> set (registered (trace m)).
             let out = run env (callback_prog fadd f rows cols val) s (globals m) in
               if f = Automation_example
               then \<forall>e. result out = Inl e \<longrightarrow> (\<exists>r. last (trace out) = (r, Inl e))
               else writes (trace out) = [] \<and>
                 ((\<exists>w. trace out = [(Get_active_object, Inr w)] \<and>
                       result out = Inl (NameError ''win32com'')) \<or>
                  (\<exists>e. trace out = [(Get_active_object, Inl e)] \<and> result out = Inl e))) \<and>
          (let out = run env (update_func address rows cols val) s (globals m) in
             writes (trace out) = [] \<and>
             ((\<exists>w. trace out = [(Get_active_object, Inr w)] \<and>
                   result out = Inl (NameError ''win32com'')) \<or>
              (\<exists>e. trace out = [(Get_active_object, Inl e)] \<and> result out = Inl e))))"
      (is "_ \<and> (\<forall>v. _ \<longrightarrow> ?W \<and> ?R \<and> ?M \<and> ?L)")
    proof (rule conjI [OF exn], intro allI impI)
      fix v assume v: "result m = Inr v"
      from ok v have w: ?W and unbound: ?M
        by simp_all
      from all v have r: ?R
        by simp
      from later [OF unbound] have l: ?L .
      show "?W \<and> ?R \<and> ?M \<and> ?L"
        by (rule conjI [OF w conjI [OF r conjI [OF unbound l]]])
    qed
  qed
qed

theorem missing_win32com_fails_in_xl_app_witness:
  "let m = run script_env module_body
        [Inr PNone, Inr PNone, Inr PNone,
         Inl (ImportError ''No module named win32com.client'') :: string answer] [] in
     result m = Inr PNone \<and>
     warnings (trace m) =
       [''*** win32com.client could not be imported          ***'',
        ''*** some of the automation examples will not work  ***'',
        ''*** to fix this, install the pywin32 extensions.   ***''] \<and>
     registrations (trace m) =
       [Xl_menu ''win32com test'' ''More Examples'' Win32com_menu_test,
        Xl_macro Button_example, Xl_macro Checkbox_example, Xl_macro Scrollbar_example,
        Xl_func ''int rows, int cols, var value'' True Automation_example] \<and>
     (let out = run script_env (callback_prog no_floats Button_example 0 0 PNone)
          [Inr (PObj ''window'')] (globals m) in
        trace out = [(Get_active_object, Inr (PObj ''window''))] \<and>
        result out = Inl (NameError ''win32com''))"
proof -
  let ?script = "[Inr PNone, Inr PNone, Inr PNone,
         Inl (ImportError ''No module named win32com.client'')] :: string answer list"
  let ?m = "run script_env module_body ?script []"
  let ?out = "run script_env (callback_prog no_floats Button_example 0 0 PNone)
          [Inr (PObj ''window'')] (globals ?m)"
  have failed: "(Import ''win32com.client'',
      Inl (ImportError ''No module named win32com.client'')) \<in> set (trace ?m)"
    by code_simp
  have res: "result ?m = Inr PNone"
    by code_simp
  have reg: "Button_example \<in> set (registered (trace ?m))"
    by code_simp
  have tr: "trace ?out = [(Get_active_object, Inr (PObj ''window''))]"
    by code_simp
  note c7 = missing_win32com_fails_in_xl_app [where ?env0.0 = script_env and ?s0.0 = ?script
      and msg = "''No module named win32com.client''" and env = script_env
      and s = "[Inr (PObj ''window'')]" and fadd = no_floats and rows = 0 and cols = 0
      and val = PNone, unfolded Let_def, rule_format, OF failed]
  note ok = c7 [THEN conjunct2, rule_format, OF res]
  from ok have w: "warnings (trace ?m) =
       [''*** win32com.client could not be imported          ***'',
        ''*** some of the automation examples will not work  ***'',
        ''*** to fix this, install the pywin32 extensions.   ***'']"
    by (rule conjunct1)
  from ok have r: "registrations (trace ?m) =
       [Xl_menu ''win32com test'' ''More Examples'' Win32com_menu_test,
        Xl_macro Button_example, Xl_macro Checkbox_example, Xl_macro Scrollbar_example,
        Xl_func ''int rows, int cols, var value'' True Automation_example]"
    by (rule conjunct2 [THEN conjunct1])
  from ok have "\<forall>f \<in> set (registered (trace ?m)).
      if f = Automation_example
      then \<forall>e. result (run script_env (callback_prog no_floats f 0 0 PNone)
          [Inr (PObj ''window'')] (globals ?m)) = Inl e \<longrightarrow>
        (\<exists>r. last (trace (run script_env (callback_prog no_floats f 0 0 PNone)
          [Inr (PObj ''window'')] (globals ?m))) = (r, Inl e))
      else writes (trace (run script_env (callback_prog no_floats f 0 0 PNone)
          [Inr (PObj ''window'')] (globals ?m))) = [] \<and>
        ((\<exists>w. trace (run script_env (callback_prog no_floats f 0 0 PNone)
          [Inr (PObj ''window'')] (globals ?m)) = [(Get_active_object, Inr w)] \<and>
              result (run script_env (callback_prog no_floats f 0 0 PNone)
          [Inr (PObj ''window'')] (globals ?m)) = Inl (NameError ''win32com'')) \<or>
         (\<exists>e. trace (run script_env (callback_prog no_floats f 0 0 PNone)
          [Inr (PObj ''window'')] (globals ?m)) = [(Get_active_object, Inl e)] \<and>
              result (run script_env (callback_prog no_floats f 0 0 PNone)
          [Inr (PObj ''window'')] (globals ?m)) = Inl e))"
    by (rule conjunct2 [THEN conjunct2, THEN conjunct2, THEN conjunct1])
  from bspec [OF this reg] have "(\<exists>w. trace ?out = [(Get_active_object, Inr w)] \<and>
        result ?out = Inl (NameError ''win32com'')) \<or>
      (\<exists>e. trace ?out = [(Get_active_object, Inl e)] \<and> result ?out = Inl e)"
    by simp
  with tr have "result ?out = Inl (NameError ''win32com'')"
    by simp
  with res w r tr show ?thesis
    unfolding Let_def by (intro conjI)
qed

section \<open>The Application object comes from xl\_app\<close>

lemma xl_app_runs:
  "every_run xl_app g (\<lambda>out.
     (\<exists>w d a. requests (trace out) =
        take (length (trace out))
          [Get_active_object, Dispatch w, GetAttr d ''Application'', EnsureDispatch a]) \<and>
     (\<forall>x a. (Dispatch x, a) \<in> set (trace out) \<longrightarrow>
        (Get_active_object, Inr x) \<in> set (trace out)) \<and>
     (\<forall>v. result out = Inr v \<longrightarrow>
        (\<exists>w d x. trace out =
           [(Get_active_object, Inr w), (Dispatch w, Inr d),
            (GetAttr d ''Application'', Inr v), (EnsureDispatch v, Inr x)])))"
  unfolding prog_defs by (intro every_run_intros; simp add: trace_defs)

lemma module_body_registered:
  "every_run module_body [] (\<lambda>m. list_all (\<lambda>f. f \<noteq> Xl_app) (registered (trace m)))"
  unfolding module_defs
  by (intro every_run_intros every_run_Try_intros;
      simp add: trace_defs reg_defs List.map_filter_def)

lemma commands_go_on_without_resolution:
  assumes "f \<noteq> Automation_example" and "f \<noteq> Xl_app"
  shows "\<exists>k. callback_prog fadd f rows cols val = bnd xl_app k \<and>
     (\<forall>xl g. every_run (k xl) g (\<lambda>out. filter is_resolution (requests (trace out)) = []))"
proof (cases f)
  case Win32com_menu_test
  show ?thesis
    unfolding Win32com_menu_test callback_prog.simps win32com_menu_test_def
    by (rule exI, rule conjI, rule refl, intro allI every_run_intros; simp add: trace_defs)
next
  case Button_example
  show ?thesis
    unfolding Button_example callback_prog.simps button_example_def
    by (rule exI, rule conjI, rule refl, intro allI every_run_intros; simp add: trace_defs)
next
  case Checkbox_example
  show ?thesis
    unfolding Checkbox_example callback_prog.simps checkbox_example_def
    by (rule exI, rule conjI, rule refl, intro allI every_run_intros; simp add: trace_defs)
next
  case Scrollbar_example
  show ?thesis
    unfolding Scrollbar_example callback_prog.simps scrollbar_example_def
    by (rule exI, rule conjI, rule refl, intro allI every_run_intros; simp add: trace_defs)
qed (use assms in simp_all)

lemma update_func_goes_on_without_resolution:
  "\<exists>k. update_func address rows cols val = bnd xl_app k \<and>
     (\<forall>xl g. every_run (k xl) g (\<lambda>out. filter is_resolution (requests (trace out)) = []))"
  unfolding update_func_def
  by (rule exI, rule conjI, rule refl, intro allI every_run_intros; simp add: trace_defs)

lemma automation_example_resolves_nothing:
  "every_run (automation_example rows cols val) g (\<lambda>out.
     filter is_resolution (requests (trace out)) = [])"
  unfolding prog_defs by (intro every_run_intros; simp add: trace_defs)

text \<open>
  C5. \<^verbatim>\<open>xl_app\<close> asks PyXLL for the active object, wraps what it gets with
  \<^verbatim>\<open>Dispatch\<close>, reads \<^verbatim>\<open>Application\<close> of the wrapper, calls
  \<^verbatim>\<open>EnsureDispatch\<close> on that and returns it: whatever \<^verbatim>\<open>Dispatch\<close> is applied to
  is an answer of \<^verbatim>\<open>get_active_object\<close>, never a program name that would start
  another Excel. Every registered callback but \<^verbatim>\<open>automation_example\<close>, and the
  function that one defers, is \<^verbatim>\<open>xl_app\<close> followed by a continuation that makes none
  of these requests again (\<open>run_bnd\<close> says what \<open>bnd\<close> runs);
  \<^verbatim>\<open>automation_example\<close> itself makes none at all.
\<close>

theorem handles_come_through_xl_app:
  fixes env0 :: "('i, 'o) env" and env :: "('h, 'o) env"
  shows
  "(let out = run env xl_app s g in
      (\<exists>w d a. requests (trace out) =
         take (length (trace out))
           [Get_active_object, Dispatch w, GetAttr d ''Application'', EnsureDispatch a]) \<and>
      (\<forall>x a. (Dispatch x, a) \<in> set (trace out) \<longrightarrow>
         (Get_active_object, Inr x) \<in> set (trace out)) \<and>
      (\<forall>v. result out = Inr v \<longrightarrow>
         (\<exists>w d x. trace out =
            [(Get_active_object, Inr w), (Dispatch w, Inr d),
             (GetAttr d ''Application'', Inr v), (EnsureDispatch v, Inr x)]))) \<and>
   (\<forall>f \<in> set (registered (trace (run env0 module_body s0 []))).
      if f = Automation_example
      then filter is_resolution
             (requests (trace (run env (callback_prog fadd f rows cols val) s g))) = []
      else \<exists>k. callback_prog fadd f rows cols val = bnd xl_app k \<and>
             (\<forall>xl (env' :: ('h, 'o) env) s' g'.
                filter is_resolution (requests (trace (run env' (k xl) s' g'))) = [])) \<and>
   (\<exists>k. update_func address rows cols val = bnd xl_app k \<and>
      (\<forall>xl (env' :: ('h, 'o) env) s' g'.
         filter is_resolution (requests (trace (run env' (k xl) s' g'))) = []))"
  (is "?A \<and> ?B \<and> ?C")
proof -
  have a: ?A
    unfolding Let_def by (rule every_runD [OF xl_app_runs])
  have b: ?B
  proof
    fix f assume "f \<in> set (registered (trace (run env0 module_body s0 [])))"
    with every_runD [OF module_body_registered, of env0 s0] have f: "f \<noteq> Xl_app"
      by (simp add: list_all_iff)
    show "if f = Automation_example
      then filter is_resolution
             (requests (trace (run env (callback_prog fadd f rows cols val) s g))) = []
      else \<exists>k. callback_prog fadd f rows cols val = bnd xl_app k \<and>
             (\<forall>xl (env' :: ('h, 'o) env) s' g'.
                filter is_resolution (requests (trace (run env' (k xl) s' g'))) = [])"
    proof (cases "f = Automation_example")
      case True
      show ?thesis
        unfolding True callback_prog.simps
        by (subst if_P [OF refl], rule every_runD [OF automation_example_resolves_nothing])
    next
      case False
      from commands_go_on_without_resolution [OF False f, of fadd rows cols val]
      obtain k where "callback_prog fadd f rows cols val = bnd xl_app k"
        and "\<forall>xl g. every_run (k xl) g
          (\<lambda>out :: ('h, 'o) outcome. filter is_resolution (requests (trace out)) = [])"
        by blast
      then have "callback_prog fadd f rows cols val = bnd xl_app k \<and>
             (\<forall>xl (env' :: ('h, 'o) env) s' g'.
                filter is_resolution (requests (trace (run env' (k xl) s' g'))) = [])"
        by (simp add: every_run_def)
      then show ?thesis
        unfolding if_not_P [OF False] by (rule exI [of _ k])
    qed
  qed
  have c: ?C
  proof -
    from update_func_goes_on_without_resolution [of address rows cols val]
    obtain k where "update_func address rows cols val = bnd xl_app k"
      and "\<forall>xl g. every_run (k xl) g
        (\<lambda>out :: ('h, 'o) outcome. filter is_resolution (requests (trace out)) = [])"
      by blast
    then have "update_func address rows cols val = bnd xl_app k \<and>
      (\<forall>xl (env' :: ('h, 'o) env) s' g'.
         filter is_resolution (requests (trace (run env' (k xl) s' g'))) = [])"
      by (simp add: every_run_def)
    then show ?thesis by (rule exI [of _ k])
  qed
  from a b c show ?thesis by (intro conjI)
qed

theorem handles_come_through_xl_app_witness:
  "let out = run script_env xl_app
        [Inr (PObj ''window''), Inr (PObj ''dispatch''), Inr (PObj ''app''),
         Inr (PObj ''dispatch'')] win32com_bound in
     result out = Inr (PObj ''app'') \<and>
     trace out =
       [(Get_active_object, Inr (PObj ''window'')),
        (Dispatch (PObj ''window''), Inr (PObj ''dispatch'')),
        (GetAttr (PObj ''dispatch'') ''Application'', Inr (PObj ''app'')),
        (EnsureDispatch (PObj ''app''), Inr (PObj ''dispatch''))]"
proof -
  let ?out = "run script_env xl_app
        [Inr (PObj ''window''), Inr (PObj ''dispatch''), Inr (PObj ''app''),
         Inr (PObj ''dispatch'')] win32com_bound"
  have res: "result ?out = Inr (PObj ''app'')"
    by (simp add: prog_defs script_defs del: run.simps(3))
  have d: "(Dispatch (PObj ''window''), Inr (PObj ''dispatch'')) \<in> set (trace ?out)"
    by (simp add: prog_defs script_defs del: run.simps(3))
  note c5 = handles_come_through_xl_app [where env = script_env and g = win32com_bound
      and s = "[Inr (PObj ''window''), Inr (PObj ''dispatch''), Inr (PObj ''app''),
         Inr (PObj ''dispatch'')]", THEN conjunct1, unfolded Let_def]
  from c5 d have "(Get_active_object, Inr (PObj ''window'')) \<in> set (trace ?out)"
    by blast
  moreover from c5 res obtain w d x where "trace ?out =
      [(Get_active_object, Inr w), (Dispatch w, Inr d),
       (GetAttr d ''Application'', Inr (PObj ''app'')), (EnsureDispatch (PObj ''app''), Inr x)]"
    by blast
  ultimately have "trace ?out =
      [(Get_active_object, Inr (PObj ''window'')), (Dispatch (PObj ''window''), Inr d),
       (GetAttr d ''Application'', Inr (PObj ''app'')), (EnsureDispatch (PObj ''app''), Inr x)]"
    by auto
  with d have "trace ?out =
       [(Get_active_object, Inr (PObj ''window'')),
        (Dispatch (PObj ''window''), Inr (PObj ''dispatch'')),
        (GetAttr (PObj ''dispatch'') ''Application'', Inr (PObj ''app'')),
        (EnsureDispatch (PObj ''app''), Inr x)]"
    by auto
  moreover have "snd (trace ?out ! 3) = Inr (PObj ''dispatch'')"
    by (simp add: prog_defs script_defs del: run.simps(3))
  ultimately have "trace ?out =
       [(Get_active_object, Inr (PObj ''window'')),
        (Dispatch (PObj ''window''), Inr (PObj ''dispatch'')),
        (GetAttr (PObj ''dispatch'') ''Application'', Inr (PObj ''app'')),
        (EnsureDispatch (PObj ''app''), Inr (PObj ''dispatch''))]"
    by simp
  with res show ?thesis by (simp add: Let_def)
qed

section \<open>How many properties a callback touches\<close>

lemma callback_accesses:
  "every_run (callback_prog fadd f rows cols val) g (\<lambda>out.
     length (accesses (trace out)) \<le>
       (case f of Xl_app \<Rightarrow> 0 | Win32com_menu_test \<Rightarrow> 2 | Button_example \<Rightarrow> 3
        | Checkbox_example \<Rightarrow> 6 | Scrollbar_example \<Rightarrow> 7 | Automation_example \<Rightarrow> 1) \<and>
     length (writes (trace out)) \<le> 1 \<and>
     (writes (trace out) \<noteq> [] \<longrightarrow> last (accesses (trace out)) \<in> set (writes (trace out))) \<and>
     length (filter is_resolution (requests (trace out))) \<le> 4 \<and>
     (if f = Automation_example
      then writes (trace out) = [] \<and> length (handed_over (trace out)) \<le> 1 \<and>
        (\<forall>c \<in> set (handed_over (trace out)). \<exists>address. c = Update_func address rows cols val)
      else handed_over (trace out) = []))"
  by (cases f; simp add: prog_defs)
     (intro every_run_intros; simp add: trace_defs)+

lemma update_func_accesses:
  "every_run (update_func address rows cols val) g (\<lambda>out.
     length (accesses (trace out)) \<le> 5 \<and>
     length (writes (trace out)) \<le> 1 \<and>
     (writes (trace out) \<noteq> [] \<longrightarrow> last (accesses (trace out)) \<in> set (writes (trace out))) \<and>
     length (filter is_resolution (requests (trace out))) \<le> 4 \<and>
     handed_over (trace out) = [])"
  unfolding prog_defs bnd.simps
  by (intro every_run_intros; simp add: trace_defs)

text \<open>
  C2 says that no function makes more than one access of a property once it has the
  Application object. \<^verbatim>\<open>button_example\<close> makes three, on a button whose range holds
  41: it asks for \<^verbatim>\<open>Range("button_output")\<close>, reads its \<^verbatim>\<open>Value\<close> and writes it.
\<close>

theorem button_example_reads_and_writes:
  "accesses (trace (run script_env (button_example no_floats)
       [Inr (PObj ''window''), Inr (PObj ''dispatch''), Inr (PObj ''app''),
        Inr (PObj ''app''), Inr (PObj ''range''), Inr (PInt 41)] win32com_bound)) =
     [Call (PObj ''app'') ''Range'' [PStr ''button_output''],
      GetAttr (PObj ''range'') ''Value'', SetAttr (PObj ''range'') ''Value'' (PInt 42)] \<and>
   \<not> length (accesses (trace (run script_env (button_example no_floats)
       [Inr (PObj ''window''), Inr (PObj ''dispatch''), Inr (PObj ''app''),
        Inr (PObj ''app''), Inr (PObj ''range''), Inr (PInt 41)] win32com_bound))) \<le> 1"
  by (simp add: prog_defs script_defs del: run.simps(3))

text \<open>
  C2, amended. In every run, a registered callback makes the four requests of
  \<^verbatim>\<open>xl_app\<close> at most once and beyond them at most seven accesses of a property: two in
  \<^verbatim>\<open>win32com_menu_test\<close>, three in \<^verbatim>\<open>button_example\<close>, six in
  \<^verbatim>\<open>checkbox_example\<close>, seven in \<^verbatim>\<open>scrollbar_example\<close>, one in
  \<^verbatim>\<open>automation_example\<close>. At most one access is a write, and it is the last one. Only
  \<^verbatim>\<open>automation_example\<close> defers: it writes nothing itself and gives
  \<^verbatim>\<open>async_call\<close> at most one function, \<^verbatim>\<open>update_func\<close>, while the other callbacks
  give it none. \<^verbatim>\<open>update_func\<close> makes at most five accesses, the last one its write,
  and defers nothing further.
\<close>

theorem callbacks_access_few_properties:
  fixes env0 :: "('i, 'o) env" and env :: "('h, 'o) env"
  shows
  "(\<forall>f \<in> set (registered (trace (run env0 module_body s0 []))).
      let out = run env (callback_prog fadd f rows cols val) s g in
        length (accesses (trace out)) \<le>
          (case f of Xl_app \<Rightarrow> 0 | Win32com_menu_test \<Rightarrow> 2 | Button_example \<Rightarrow> 3
           | Checkbox_example \<Rightarrow> 6 | Scrollbar_example \<Rightarrow> 7 | Automation_example \<Rightarrow> 1) \<and>
        length (writes (trace out)) \<le> 1 \<and>
        (writes (trace out) \<noteq> [] \<longrightarrow>
           last (accesses (trace out)) \<in> set (writes (trace out))) \<and>
        length (filter is_resolution (requests (trace out))) \<le> 4 \<and>
        (if f = Automation_example
         then writes (trace out) = [] \<and> length (handed_over (trace out)) \<le> 1 \<and>
           (\<forall>c \<in> set (handed_over (trace out)).
              \<exists>address. c = Update_func address rows cols val)
         else handed_over (trace out) = [])) \<and>
   (let out = run env (update_func address rows cols val) s g in
      length (accesses (trace out)) \<le> 5 \<and>
      length (writes (trace out)) \<le> 1 \<and>
      (writes (trace out) \<noteq> [] \<longrightarrow>
         last (accesses (trace out)) \<in> set (writes (trace out))) \<and>
      length (filter is_resolution (requests (trace out))) \<le> 4 \<and>
      handed_over (trace out) = [])"
  (is "?A \<and> ?B")
proof -
  have a: ?A
    unfolding Let_def by (intro ballI, rule every_runD [OF callback_accesses])
  have b: ?B
    unfolding Let_def by (rule every_runD [OF update_func_accesses])
  from a b show ?thesis by (rule conjI)
qed

theorem callbacks_access_few_properties_witness:
  "Scrollbar_example \<in> set (registered (trace (run script_env module_body
      ([] :: string answer list) []))) \<and>
   (let out = run script_env (callback_prog no_floats Scrollbar_example 0 0 PNone)
       [Inr (PObj ''window''), Inr (PObj ''dispatch''), Inr (PObj ''app''),
        Inr (PObj ''app''), Inr (PStr ''Scroll Bar 1''), Inr (PObj ''sheet''),
        Inr (PStr ''Scroll Bar 1''), Inr (PObj ''scrollbar''), Inr (PInt 5),
        Inr (PObj ''range'')] win32com_bound in
      length (accesses (trace out)) = 7 \<and>
      writes (trace out) = [SetAttr (PObj ''range'') ''Value'' (PInt 5)] \<and>
      last (accesses (trace out)) = SetAttr (PObj ''range'') ''Value'' (PInt 5) \<and>
      handed_over (trace out) = [])"
proof -
  let ?m = "run script_env module_body ([] :: string answer list) []"
  let ?script = "[Inr (PObj ''window''), Inr (PObj ''dispatch''), Inr (PObj ''app''),
        Inr (PObj ''app''), Inr (PStr ''Scroll Bar 1''), Inr (PObj ''sheet''),
        Inr (PStr ''Scroll Bar 1''), Inr (PObj ''scrollbar''), Inr (PInt 5),
        Inr (PObj ''range'')] :: string answer list"
  let ?out = "run script_env (callback_prog no_floats Scrollbar_example 0 0 PNone)
       ?script win32com_bound"
  have reg: "Scrollbar_example \<in> set (registered (trace ?m))"
    by code_simp
  have len: "7 \<le> length (accesses (trace ?out))"
    by (simp add: prog_defs script_defs del: run.simps(3))
  have w: "writes (trace ?out) = [SetAttr (PObj ''range'') ''Value'' (PInt 5)]"
    by (simp add: prog_defs script_defs del: run.simps(3))
  note c2 = callbacks_access_few_properties [where ?env0.0 = script_env and ?s0.0 = "[]"
      and env = script_env and s = ?script and g = win32com_bound and fadd = no_floats
      and rows = 0 and cols = 0 and val = PNone, THEN conjunct1, THEN bspec, OF reg,
      unfolded Let_def]
  from c2 have "length (accesses (trace ?out)) \<le> 7"
    by simp
  with len have l: "length (accesses (trace ?out)) = 7"
    by simp
  from c2 w have "last (accesses (trace ?out)) = SetAttr (PObj ''range'') ''Value'' (PInt 5)"
    by simp
  moreover from c2 have "handed_over (trace ?out) = []"
    by simp
  ultimately show ?thesis
    using reg l w by (simp add: Let_def)
qed

section \<open>The button\<close>

lemma button_example_runs:
  "every_run (button_example fadd) g (\<lambda>out.
     length (writes (trace out)) \<le> 1 \<and>
     (\<forall>w \<in> set (writes (trace out)). \<exists>d xl rng v v'.
        (GetAttr d ''Application'', Inr xl) \<in> set (trace out) \<and>
        (Call xl ''Range'' [PStr ''button_output''], Inr rng) \<in> set (trace out) \<and>
        (GetAttr rng ''Value'', Inr v) \<in> set (trace out) \<and>
        add_one fadd v = Inr v' \<and>
        w = SetAttr rng ''Value'' v') \<and>
     (\<forall>rng v. (GetAttr rng ''Value'', Inr v) \<in> set (trace out) \<longrightarrow>
        (case add_one fadd v of
           Inl e \<Rightarrow> result out = Inl e \<and> writes (trace out) = []
         | Inr v' \<Rightarrow> writes (trace out) = [SetAttr rng ''Value'' v'])) \<and>
     (\<forall>r. result out = Inr r \<longrightarrow> r = PNone \<and> length (writes (trace out)) = 1))"
  unfolding prog_defs bnd.simps
  by (intro every_run_intros; simp add: trace_defs)

text \<open>
  C9 says that every run of \<^verbatim>\<open>button_example\<close> leaves the range one higher. On a range
  that is empty, \<^verbatim>\<open>Value\<close> is None, \<^verbatim>\<open>None + 1\<close> raises TypeError and nothing is
  written.
\<close>

theorem button_example_on_an_empty_range:
  "result (run script_env (button_example no_floats)
       [Inr (PObj ''window''), Inr (PObj ''dispatch''), Inr (PObj ''app''),
        Inr (PObj ''app''), Inr (PObj ''range''), Inr PNone] win32com_bound) = Inl TypeError \<and>
   writes (trace (run script_env (button_example no_floats)
       [Inr (PObj ''window''), Inr (PObj ''dispatch''), Inr (PObj ''app''),
        Inr (PObj ''app''), Inr (PObj ''range''), Inr PNone] win32com_bound)) = []"
  by (simp add: prog_defs script_defs del: run.simps(3))

text \<open>
  C9, amended. A run of \<^verbatim>\<open>button_example\<close> makes at most one write. Once it has read
  the \<^verbatim>\<open>Value\<close> \<open>v\<close> of the range that \<^verbatim>\<open>Range("button_output")\<close> returned: if
  \<^verbatim>\<open>v + 1\<close> is defined (a bool, an int, a float), its one write sets \<^verbatim>\<open>Value\<close> of that
  same range to \<^verbatim>\<open>v + 1\<close>; if not, the run ends with TypeError and has written nothing.
  A run that returns has made exactly that one write.
\<close>

theorem button_example_adds_one:
  "let out = run env (button_example fadd) s g in
     length (writes (trace out)) \<le> 1 \<and>
     (\<forall>w \<in> set (writes (trace out)). \<exists>d xl rng v v'.
        (GetAttr d ''Application'', Inr xl) \<in> set (trace out) \<and>
        (Call xl ''Range'' [PStr ''button_output''], Inr rng) \<in> set (trace out) \<and>
        (GetAttr rng ''Value'', Inr v) \<in> set (trace out) \<and>
        add_one fadd v = Inr v' \<and>
        w = SetAttr rng ''Value'' v') \<and>
     (\<forall>rng v. (GetAttr rng ''Value'', Inr v) \<in> set (trace out) \<longrightarrow>
        (case add_one fadd v of
           Inl e \<Rightarrow> result out = Inl e \<and> writes (trace out) = []
         | Inr v' \<Rightarrow> writes (trace out) = [SetAttr rng ''Value'' v'])) \<and>
     (\<forall>r. result out = Inr r \<longrightarrow> r = PNone \<and> length (writes (trace out)) = 1)"
  unfolding Let_def by (rule every_runD [OF button_example_runs])

theorem button_example_adds_one_witness:
  "let out = run script_env (button_example no_floats)
       [Inr (PObj ''window''), Inr (PObj ''dispatch''), Inr (PObj ''app''),
        Inr (PObj ''app''), Inr (PObj ''range''), Inr (PInt 41)] win32com_bound in
     result out = Inr PNone \<and>
     writes (trace out) = [SetAttr (PObj ''range'') ''Value'' (PInt 42)]"
proof -
  let ?script = "[Inr (PObj ''window''), Inr (PObj ''dispatch''), Inr (PObj ''app''),
        Inr (PObj ''app''), Inr (PObj ''range''), Inr (PInt 41)] :: string answer list"
  let ?out = "run script_env (button_example no_floats) ?script win32com_bound"
  have v: "(GetAttr (PObj ''range'') ''Value'', Inr (PInt 41)) \<in> set (trace ?out)"
    by (simp add: prog_defs script_defs del: run.simps(3))
  have res: "result ?out = Inr PNone"
    by (simp add: prog_defs script_defs del: run.simps(3))
  note c9 = button_example_adds_one [of script_env no_floats ?script win32com_bound,
      unfolded Let_def, THEN conjunct2, THEN conjunct2, THEN conjunct1, rule_format, OF v]
  then have "writes (trace ?out) = [SetAttr (PObj ''range'') ''Value'' (PInt 42)]"
    by simp
  with res show ?thesis by (simp add: Let_def)
qed


section \<open>The check box\<close>

lemma checkbox_example_runs:
  "every_run checkbox_example g (\<lambda>out.
     length (writes (trace out)) \<le> 1 \<and>
     (\<forall>w \<in> set (writes (trace out)). \<exists>d xl sheet caller check_box v rng.
        (GetAttr d ''Application'', Inr xl) \<in> set (trace out) \<and>
        (GetAttr xl ''ActiveSheet'', Inr sheet) \<in> set (trace out) \<and>
        (GetAttr xl ''Caller'', Inr caller) \<in> set (trace out) \<and>
        (Call sheet ''CheckBoxes'' [caller], Inr check_box) \<in> set (trace out) \<and>
        (GetAttr check_box ''Value'', Inr v) \<in> set (trace out) \<and>
        (Call xl ''Range'' [PStr ''checkbox_output''], Inr rng) \<in> set (trace out) \<and>
        w = SetAttr rng ''Value''
              (PStr (if eq_one v then ''CHECKED!'' else ''Click the check box''))) \<and>
     (\<forall>r. result out = Inr r \<longrightarrow> r = PNone \<and> length (writes (trace out)) = 1))"
  unfolding prog_defs bnd.simps
  by (intro every_run_intros; simp add: trace_defs)

text \<open>
  C10 says that every run of \<^verbatim>\<open>checkbox_example\<close> makes exactly one write. Run from
  somewhere else than a check box, \<^verbatim>\<open>xl.Caller\<close> names none,
  \<^verbatim>\<open>CheckBoxes(xl.Caller)\<close> raises, and nothing is written.
\<close>

theorem checkbox_example_without_a_check_box:
  "result (run script_env checkbox_example
       [Inr (PObj ''window''), Inr (PObj ''dispatch''), Inr (PObj ''app''),
        Inr (PObj ''app''), Inr (PObj ''sheet''), Inr (PInt (- 2146826265)),
        Inl (Com_error (- 2147352567))] win32com_bound) = Inl (Com_error (- 2147352567)) \<and>
   writes (trace (run script_env checkbox_example
       [Inr (PObj ''window''), Inr (PObj ''dispatch''), Inr (PObj ''app''),
        Inr (PObj ''app''), Inr (PObj ''sheet''), Inr (PInt (- 2146826265)),
        Inl (Com_error (- 2147352567))] win32com_bound)) = []"
  by (simp add: prog_defs script_defs del: run.simps(3))

text \<open>
  C10, amended. A run of \<^verbatim>\<open>checkbox_example\<close> makes at most one write, and a run that
  returns exactly one. The write sets \<^verbatim>\<open>Value\<close> of the range that
  \<^verbatim>\<open>Range("checkbox_output")\<close> returned, to \<^verbatim>\<open>'CHECKED!'\<close> if the \<^verbatim>\<open>Value\<close> of
  the check box of the caller \<^verbatim>\<open>== 1\<close>, and to \<^verbatim>\<open>"Click the check box"\<close> if not.
\<close>

theorem checkbox_example_writes_once:
  "let out = run env checkbox_example s g in
     length (writes (trace out)) \<le> 1 \<and>
     (\<forall>w \<in> set (writes (trace out)). \<exists>d xl sheet caller check_box v rng.
        (GetAttr d ''Application'', Inr xl) \<in> set (trace out) \<and>
        (GetAttr xl ''ActiveSheet'', Inr sheet) \<in> set (trace out) \<and>
        (GetAttr xl ''Caller'', Inr caller) \<in> set (trace out) \<and>
        (Call sheet ''CheckBoxes'' [caller], Inr check_box) \<in> set (trace out) \<and>
        (GetAttr check_box ''Value'', Inr v) \<in> set (trace out) \<and>
        (Call xl ''Range'' [PStr ''checkbox_output''], Inr rng) \<in> set (trace out) \<and>
        w = SetAttr rng ''Value''
              (PStr (if eq_one v then ''CHECKED!'' else ''Click the check box''))) \<and>
     (\<forall>r. result out = Inr r \<longrightarrow> r = PNone \<and> length (writes (trace out)) = 1)"
  unfolding Let_def by (rule every_runD [OF checkbox_example_runs])

theorem checkbox_example_writes_once_witness:
  "let out = run script_env checkbox_example
       [Inr (PObj ''window''), Inr (PObj ''dispatch''), Inr (PObj ''app''),
        Inr (PObj ''app''), Inr (PObj ''sheet''), Inr (PStr ''Check Box 1''),
        Inr (PObj ''check_box''), Inr (PInt 1), Inr (PObj ''range'')] win32com_bound in
     result out = Inr PNone \<and>
     writes (trace out) = [SetAttr (PObj ''range'') ''Value'' (PStr ''CHECKED!'')]"
proof -
  let ?script = "[Inr (PObj ''window''), Inr (PObj ''dispatch''), Inr (PObj ''app''),
        Inr (PObj ''app''), Inr (PObj ''sheet''), Inr (PStr ''Check Box 1''),
        Inr (PObj ''check_box''), Inr (PInt 1), Inr (PObj ''range'')] :: string answer list"
  let ?out = "run script_env checkbox_example ?script win32com_bound"
  have res: "result ?out = Inr PNone"
    by (simp add: prog_defs script_defs del: run.simps(3))
  have w: "writes (trace ?out) = [SetAttr (PObj ''range'') ''Value'' (PStr ''CHECKED!'')]"
    by (simp add: prog_defs script_defs del: run.simps(3))
  note c10 = checkbox_example_writes_once [of script_env ?script win32com_bound,
      unfolded Let_def, THEN conjunct2, THEN conjunct2, rule_format, OF res]
  from c10 have "length (writes (trace ?out)) = 1"
    by (rule conjunct2)
  with res w show ?thesis by (simp add: Let_def)
qed

section \<open>The block below the caller\<close>










end
